(* ===== verification/Prelude.thy ===== *)
theory Prelude
  imports Main "HOL-Library.AList"
begin

text \<open>
  Shared vocabulary of the development. JavaScript objects with own enumerable
  properties are association lists from property names to values, in property
  order (\<open>'v js_props\<close>); an object is well formed when no name occurs twice.
  The collections \<open>js_simps\<close> and \<open>client_simps\<close> gather the unfolding facts the
  component theories hand to \<open>simp\<close>; the lemmas below are the generic facts on
  association lists and options those proofs share.
\<close>

named_theorems js_simps "unfolding facts of the JavaScript value model"
named_theorems client_simps "unfolding facts of the ObjectClient operations"

type_synonym 'v js_props = "(string \<times> 'v) list"

abbreviation keys_of :: "(string \<times> 'v) list \<Rightarrow> string set" where
  "keys_of ps \<equiv> fst ` set ps"

abbreviation distinct_keys :: "(string \<times> 'v) list \<Rightarrow> bool" where
  "distinct_keys ps \<equiv> distinct (map fst ps)"

subsection \<open>Association lists\<close>

lemma map_of_update_same [simp]: "map_of (AList.update k v ps) k = Some v"
  by (simp add: update_conv')

lemma map_of_update_other [simp]: "k' \<noteq> k \<Longrightarrow> map_of (AList.update k v ps) k' = map_of ps k'"
  by (simp add: update_conv')

lemma keys_of_update [simp]: "keys_of (AList.update k v ps) = insert k (keys_of ps)"
  by (simp add: dom_update)

lemma distinct_keys_update [simp, intro]: "distinct_keys ps \<Longrightarrow> distinct_keys (AList.update k v ps)"
  by (rule distinct_update)

lemma set_update_subset: "set (AList.update k v ps) \<subseteq> insert (k, v) (set ps)"
  by (induction ps) auto

lemma map_of_fold_update:
  "map_of (fold (\<lambda>(k, v). AList.update k v) qs ps) = map_of ps ++ map_of (rev qs)"
proof (induction qs arbitrary: ps)
  case Nil
  then show ?case by simp
next
  case (Cons q qs)
  obtain a b where q: "q = (a, b)" by (cases q)
  have "map_of (fold (\<lambda>(k, v). AList.update k v) qs (AList.update a b ps)) =
      (map_of ps)(a \<mapsto> b) ++ map_of (rev qs)"
    by (simp only: Cons.IH update_conv')
  then show ?case by (simp add: q map_add_assoc [symmetric])
qed

lemma keys_of_fold_update [simp]:
  "keys_of (fold (\<lambda>(k, v). AList.update k v) qs ps) = keys_of ps \<union> keys_of qs"
proof (induction qs arbitrary: ps)
  case Nil
  then show ?case by simp
next
  case (Cons q qs)
  then show ?case
    by (cases q) (simp only: fold.simps comp_def keys_of_update prod.case, auto)
qed

lemma distinct_keys_fold_update [intro]:
  "distinct_keys ps \<Longrightarrow> distinct_keys (fold (\<lambda>(k, v). AList.update k v) qs ps)"
  by (induction qs arbitrary: ps) auto

lemma map_of_rev_distinct: "distinct_keys ps \<Longrightarrow> map_of (rev ps) = map_of ps"
  by (metis distinct_rev map_of_inject_set rev_map set_rev)

subsection \<open>Options\<close>

lemma case_option_same [simp]: "(case x of None \<Rightarrow> y | Some v \<Rightarrow> y) = y"
  by (cases x) simp_all

end
