(* ===== verification/JsValue.thy ===== *)
theory JsValue
  imports Prelude
begin

text \<open>
  The JavaScript values the two fragments of \<^verbatim>\<open>src/packages/svelte/src/lib/object.svelte.ts\<close>
  exchange: JSON-like data (\<open>jsval\<close>, with \<open>undefined\<close> as a value of its own, since
  object spread and \<^verbatim>\<open>mergeObjects\<close> treat a property holding \<open>undefined\<close> differently
  from a missing one), property reads and object spread, and thrown values with
  the two helpers the client applies to them (\<^verbatim>\<open>isAbortError\<close> and the coalescing of a
  thrown value into an \<^verbatim>\<open>Error\<close>). Numbers are kept as integers: no operation
  modelled here inspects them.
\<close>

datatype jsval =
    JUndefined
  | JNull
  | JBool bool
  | JNum int
  | JStr string
  | JArr "jsval list"
  | JObj "jsval js_props"

type_synonym js_object = "jsval js_props"

subsection \<open>Property access and object spread\<close>

text \<open>\<open>obj[k]\<close> on an object: the own property, or \<open>undefined\<close> when there is none.\<close>

definition js_get :: "js_object \<Rightarrow> string \<Rightarrow> jsval" where
  "js_get obj k = (case map_of obj k of Some v \<Rightarrow> v | None \<Rightarrow> JUndefined)"

text \<open>
  \<open>{...a, ...b}\<close>: a copy of \<open>a\<close>, then every own property of \<open>b\<close> assigned in
  order; an assignment to an existing name keeps its position, a new name is
  appended. A property of \<open>b\<close> that holds \<open>undefined\<close> is copied like any other.
\<close>

definition js_spread :: "'v js_props \<Rightarrow> 'v js_props \<Rightarrow> 'v js_props" where
  "js_spread a b = fold (\<lambda>(k, v). AList.update k v) b a"

text \<open>Well-formed values: no object, at any depth, repeats a property name.\<close>

fun wf_jsval :: "jsval \<Rightarrow> bool" where
  "wf_jsval (JArr vs) = (\<forall>v \<in> set vs. wf_jsval v)"
| "wf_jsval (JObj ps) = (distinct_keys ps \<and> (\<forall>(k, v) \<in> set ps. wf_jsval v))"
| "wf_jsval _ = True"

subsection \<open>Thrown values\<close>

text \<open>
  An \<^verbatim>\<open>Error\<close> instance, with its \<^verbatim>\<open>name\<close> and \<^verbatim>\<open>message\<close>; a thrown value is such an
  error or any other value, kept as its \<^verbatim>\<open>String(value)\<close>.
\<close>

datatype js_error = Error (err_name: string) (err_message: string)

datatype thrown = Thrown_Error js_error | Thrown_Value string

text \<open>\<^verbatim>\<open>new Error(msg)\<close>\<close>

definition new_Error :: "string \<Rightarrow> js_error" where
  "new_Error msg = Error ''Error'' msg"

text \<open>
  \<^verbatim>\<open>isAbortError\<close> of \<^verbatim>\<open>@ai-sdk/provider-utils\<close>: an \<^verbatim>\<open>Error\<close> whose name is
  \<^verbatim>\<open>AbortError\<close> or \<^verbatim>\<open>TimeoutError\<close>.
\<close>

fun isAbortError :: "thrown \<Rightarrow> bool" where
  "isAbortError (Thrown_Error e) = (err_name e = ''AbortError'' \<or> err_name e = ''TimeoutError'')"
| "isAbortError (Thrown_Value _) = False"

text \<open>\<^verbatim>\<open>error instanceof Error ? error : new Error(String(error))\<close>\<close>

fun coalesce_error :: "thrown \<Rightarrow> js_error" where
  "coalesce_error (Thrown_Error e) = e"
| "coalesce_error (Thrown_Value s) = new_Error s"

text \<open>The abort reason a fetch or a stream rejects with once its signal is aborted.\<close>

definition abort_reason :: thrown where
  "abort_reason = Thrown_Error (Error ''AbortError'' ''This operation was aborted'')"

lemma js_get_Some: "map_of obj k = Some v \<Longrightarrow> js_get obj k = v"
  and js_get_None [simp]: "map_of obj k = None \<Longrightarrow> js_get obj k = JUndefined"
  by (simp_all add: js_get_def)

lemma map_of_js_spread: "distinct_keys b \<Longrightarrow> map_of (js_spread a b) = map_of a ++ map_of b"
  by (simp add: js_spread_def map_of_fold_update map_of_rev_distinct)

lemma keys_of_js_spread [simp]: "keys_of (js_spread a b) = keys_of a \<union> keys_of b"
  by (simp add: js_spread_def)

lemma distinct_keys_js_spread [intro]: "distinct_keys a \<Longrightarrow> distinct_keys (js_spread a b)"
  by (auto simp: js_spread_def)

lemma abort_reason_isAbortError [simp]: "isAbortError abort_reason"
  by (simp add: abort_reason_def)

declare new_Error_def [js_simps] abort_reason_def [js_simps]

end
