(* ===== verification/MergeObjects.thy ===== *)
theory MergeObjects
  imports JsValue
begin

text \<open>
  \<^verbatim>\<open>mergeObjects(base, overrides)\<close> of \<^verbatim>\<open>packages/ai/core/util/merge-objects.ts\<close>, which
  \<^verbatim>\<open>defaultSettingsMiddleware\<close> calls on the two \<^verbatim>\<open>providerMetadata\<close> values. The file is
  not under \<^verbatim>\<open>src/\<close>; the model follows its documented contract and its loop: an
  undefined side yields the other; otherwise a copy of \<open>base\<close>, then for each own
  property of \<open>overrides\<close> whose value is not \<open>undefined\<close>, a recursive merge when both
  sides are plain objects and a plain assignment otherwise. By the TypeScript
  signature both arguments are objects or \<open>undefined\<close> (\<open>None\<close>).
  \<open>merge_entries base result overrides\<close> is the \<^verbatim>\<open>for (const key in overrides)\<close>
  loop over the accumulating \<open>result\<close>; \<open>merge_value\<close> is the value assigned to
  \<^verbatim>\<open>result[key]\<close>. The lemmas give the property read at every key, the key set,
  preservation of well-formedness, and idempotence.
\<close>

text \<open>
  The test \<^verbatim>\<open>isSourceObject\<close> / \<^verbatim>\<open>isTargetObject\<close>: not null, of type object, not an
  array (dates and regular expressions are not JSON values).
\<close>

fun is_mergeable_object :: "jsval \<Rightarrow> bool" where
  "is_mergeable_object (JObj _) = True"
| "is_mergeable_object _ = False"

function merge_entries :: "js_object \<Rightarrow> js_object \<Rightarrow> js_object \<Rightarrow> js_object"
  and merge_value :: "jsval \<Rightarrow> jsval \<Rightarrow> jsval" where
  "merge_entries base result [] = result"
| "merge_entries base result ((k, v) # rest) =
     (if v = JUndefined then merge_entries base result rest
      else merge_entries base (AList.update k (merge_value (js_get base k) v) result) rest)"
| "merge_value baseValue overridesValue =
     (case (baseValue, overridesValue) of
        (JObj b, JObj ov) \<Rightarrow> JObj (merge_entries b b ov)
      | _ \<Rightarrow> overridesValue)"
  by pat_completeness auto
termination
  by (relation "measure (case_sum (\<lambda>(b, r, ov). 2 * size (JObj ov)) (\<lambda>(bv, v). 2 * size v + 1))") auto

definition mergeObjects :: "js_object option \<Rightarrow> js_object option \<Rightarrow> js_object option" where
  "mergeObjects base overrides =
     (case (base, overrides) of
        (None, None) \<Rightarrow> None
      | (None, _) \<Rightarrow> overrides
      | (_, None) \<Rightarrow> base
      | (Some b, Some ov) \<Rightarrow> Some (merge_entries b b ov))"

declare merge_value.simps [simp del]

lemma merge_value_objects [simp]: "merge_value (JObj b) (JObj ov) = JObj (merge_entries b b ov)"
  by (simp add: merge_value.simps)

lemma merge_value_other [simp]:
  "\<not> (is_mergeable_object bv \<and> is_mergeable_object v) \<Longrightarrow> merge_value bv v = v"
  by (cases bv; cases v) (simp_all add: merge_value.simps)

lemma merge_entries_lookup:
  "distinct_keys ov \<Longrightarrow> map_of (merge_entries base r ov) k =
     (case map_of ov k of
        None \<Rightarrow> map_of r k
      | Some v \<Rightarrow> if v = JUndefined then map_of r k else Some (merge_value (js_get base k) v))"
proof (induction ov arbitrary: r)
  case Nil
  then show ?case by simp
next
  case (Cons p ov)
  obtain k' v' where p: "p = (k', v')" by (cases p)
  from Cons.prems p have none: "map_of ov k' = None" and dk: "distinct_keys ov"
    by (auto simp: map_of_eq_None_iff)
  show ?case
  proof (cases "k = k'")
    case True
    with Cons.IH [OF dk] p none show ?thesis by simp
  next
    case False
    with Cons.IH [OF dk] p show ?thesis by (simp split: option.split)
  qed
qed

lemma merge_entries_keys:
  "keys_of (merge_entries base r ov) = keys_of r \<union> {k. \<exists>v. (k, v) \<in> set ov \<and> v \<noteq> JUndefined}"
proof (induction ov arbitrary: r)
  case Nil
  then show ?case by simp
next
  case (Cons p ov)
  then show ?case by (cases p) auto
qed

lemma wf_js_get: "wf_jsval (JObj ps) \<Longrightarrow> wf_jsval (js_get ps k)"
  by (cases "map_of ps k") (auto dest: map_of_SomeD simp: js_get_def)

lemma wf_update: "wf_jsval (JObj ps) \<Longrightarrow> wf_jsval v \<Longrightarrow> wf_jsval (JObj (AList.update k v ps))"
  using set_update_subset [of k v ps] by auto

lemma merge_wf:
  "wf_jsval (JObj base) \<Longrightarrow> wf_jsval (JObj r) \<Longrightarrow> wf_jsval (JObj ov) \<Longrightarrow>
     wf_jsval (JObj (merge_entries base r ov))"
  "wf_jsval bv \<Longrightarrow> wf_jsval v \<Longrightarrow> wf_jsval (merge_value bv v)"
proof (induction base r ov and bv v rule: merge_entries_merge_value.induct)
  case (1 base result)
  then show ?case by simp
next
  case (2 base result k v rest)
  show ?case
  proof (cases "v = JUndefined")
    case True
    from "2.prems"(3) have "wf_jsval (JObj rest)" by simp
    with "2.IH"(1) [OF True] "2.prems"(1,2) True show ?thesis
      by (simp only: merge_entries.simps if_True simp_thms)
  next
    case False
    from "2.prems"(1) have "wf_jsval (js_get base k)" by (rule wf_js_get)
    moreover from "2.prems"(3) have "wf_jsval v" by simp
    ultimately have mv: "wf_jsval (merge_value (js_get base k) v)"
      using "2.IH"(2) [OF False] by blast
    with "2.prems"(2) have r': "wf_jsval (JObj (AList.update k (merge_value (js_get base k) v) result))"
      by (rule wf_update)
    from "2.prems"(3) have "wf_jsval (JObj rest)" by simp
    with "2.IH"(3) [OF False] "2.prems"(1) r' False show ?thesis
      by (simp only: merge_entries.simps if_False)
  qed
next
  case (3 bv v)
  show ?case
  proof (cases "is_mergeable_object bv \<and> is_mergeable_object v")
    case True
    then obtain b ov where bv: "bv = JObj b" and v: "v = JObj ov"
      by (cases bv; cases v) auto
    with "3.prems" have "wf_jsval (JObj (merge_entries b b ov))"
      by (intro "3.IH") auto
    with bv v show ?thesis by simp
  next
    case False
    with "3.prems"(2) show ?thesis by simp
  qed
qed

lemma merge_self:
  "wf_jsval (JObj ov) \<Longrightarrow> \<forall>(k, v) \<in> set ov. map_of base k = Some v \<and> map_of r k = Some v \<Longrightarrow>
     merge_entries base r ov = r"
  "wf_jsval v \<Longrightarrow> bv = v \<Longrightarrow> merge_value bv v = v"
proof (induction base r ov and bv v rule: merge_entries_merge_value.induct)
  case (1 base result)
  then show ?case by simp
next
  case (2 base result k v rest)
  from "2.prems" have rest: "wf_jsval (JObj rest)"
    and inv: "\<forall>(k, v) \<in> set rest. map_of base k = Some v \<and> map_of result k = Some v"
    and kb: "map_of base k = Some v" and kr: "map_of result k = Some v" and wv: "wf_jsval v"
    by auto
  show ?case
  proof (cases "v = JUndefined")
    case True
    with "2.IH"(1) [OF True rest inv] show ?thesis by simp
  next
    case False
    from kb have "js_get base k = v" by (rule js_get_Some)
    with "2.IH"(2) [OF False wv] have "merge_value (js_get base k) v = v" by simp
    with kr have "AList.update k (merge_value (js_get base k) v) result = result"
      by (simp add: update_triv)
    with "2.IH"(3) [OF False rest] inv False show ?thesis by simp
  qed
next
  case (3 bv v)
  show ?case
  proof (cases "is_mergeable_object bv \<and> is_mergeable_object v")
    case True
    then obtain b where bv: "bv = JObj b" and v: "v = JObj b"
      using "3.prems"(2) by (cases bv) auto
    from "3.prems"(1) v have "\<forall>(k, x) \<in> set b. map_of b k = Some x \<and> map_of b k = Some x"
      by auto
    with "3.prems"(1) bv v have "merge_entries b b b = b"
      by (intro "3.IH") auto
    with bv v show ?thesis by simp
  next
    case False
    then show ?thesis by simp
  qed
qed

lemma mergeObjects_Some_Some: "mergeObjects (Some b) (Some ov) = Some (merge_entries b b ov)"
  by (simp add: mergeObjects_def)

lemma mergeObjects_lookup:
  "distinct_keys ov \<Longrightarrow>
   map_option (\<lambda>m. map_of m k) (mergeObjects (Some b) (Some ov)) =
     Some (case map_of ov k of
             None \<Rightarrow> map_of b k
           | Some v \<Rightarrow> if v = JUndefined then map_of b k else Some (merge_value (js_get b k) v))"
  by (simp add: mergeObjects_Some_Some merge_entries_lookup)

lemma mergeObjects_keys:
  "map_option keys_of (mergeObjects (Some b) (Some ov)) =
     Some (keys_of b \<union> {k. \<exists>v. (k, v) \<in> set ov \<and> v \<noteq> JUndefined})"
  by (simp add: mergeObjects_Some_Some merge_entries_keys)

lemma mergeObjects_wf:
  "pred_option (\<lambda>x. wf_jsval (JObj x)) base \<Longrightarrow> pred_option (\<lambda>x. wf_jsval (JObj x)) overrides \<Longrightarrow>
   pred_option (\<lambda>x. wf_jsval (JObj x)) (mergeObjects base overrides)"
  by (cases base; cases overrides) (simp_all add: mergeObjects_def merge_wf(1) del: wf_jsval.simps)

lemma mergeObjects_idem:
  "pred_option (\<lambda>x. wf_jsval (JObj x)) m \<Longrightarrow> mergeObjects m m = m"
proof (cases m)
  case None
  then show ?thesis by (simp add: mergeObjects_def)
next
  case (Some b)
  assume "pred_option (\<lambda>x. wf_jsval (JObj x)) m"
  with Some have wf: "wf_jsval (JObj b)" by simp
  then have "\<forall>(k, v) \<in> set b. map_of b k = Some v \<and> map_of b k = Some v" by auto
  with wf have "merge_entries b b b = b" by (rule merge_self(1))
  with Some show ?thesis by (simp add: mergeObjects_def)
qed

end
