(* ===== verification/DefaultSettingsMiddleware.thy ===== *)
theory DefaultSettingsMiddleware
  imports MergeObjects
begin

text \<open>
  \<^verbatim>\<open>defaultSettingsMiddleware({ settings })\<close> (the second fragment of
  \<^verbatim>\<open>src/packages/svelte/src/lib/object.svelte.ts\<close>, lines 219--241): a language-model
  middleware whose \<^verbatim>\<open>transformParams\<close> returns
  \<^verbatim>\<open>{ ...settings, ...params, providerMetadata: mergeObjects(settings.providerMetadata,
  params.providerMetadata) }\<close>. The call options and the settings are JavaScript
  objects (association lists of property names to values); \<open>providerMetadata\<close>,
  when present, is an object by its type. The lemmas give the value of every
  property of the result.
\<close>

text \<open>\<^verbatim>\<open>x.providerMetadata\<close>, an object or \<open>undefined\<close> by its TypeScript type.\<close>

definition provider_metadata_of :: "js_object \<Rightarrow> js_object option" where
  "provider_metadata_of ps = (case js_get ps ''providerMetadata'' of JObj m \<Rightarrow> Some m | _ \<Rightarrow> None)"

text \<open>The object literal of \<^verbatim>\<open>transformParams\<close> (lines 231--237).\<close>

definition transformParams :: "js_object \<Rightarrow> js_object \<Rightarrow> js_object" where
  "transformParams settings params =
     AList.update ''providerMetadata''
       (case mergeObjects (provider_metadata_of settings) (provider_metadata_of params) of
          None \<Rightarrow> JUndefined
        | Some m \<Rightarrow> JObj m)
       (js_spread (js_spread [] settings) params)"

record middleware =
  middlewareVersion :: string
  transform_params :: "js_object \<Rightarrow> js_object"

text \<open>The middleware object (lines 228--240).\<close>

definition defaultSettingsMiddleware :: "js_object \<Rightarrow> middleware" where
  "defaultSettingsMiddleware settings =
     \<lparr>middlewareVersion = ''v1'', transform_params = transformParams settings\<rparr>"

lemma map_of_transformParams_other:
  "distinct_keys settings \<Longrightarrow> distinct_keys params \<Longrightarrow> k \<noteq> ''providerMetadata'' \<Longrightarrow>
   map_of (transformParams settings params) k = (map_of settings ++ map_of params) k"
  by (simp add: transformParams_def map_of_js_spread distinct_keys_js_spread)

text \<open>
  C14. Every property of the result other than \<open>providerMetadata\<close> is the call's own
  property when the call has one, and the default setting otherwise.
\<close>

theorem transformParams_lookup:
  "distinct_keys settings \<Longrightarrow> distinct_keys params \<Longrightarrow> k \<noteq> ''providerMetadata'' \<Longrightarrow>
   map_of (transformParams settings params) k =
     (case map_of params k of Some v \<Rightarrow> Some v | None \<Rightarrow> map_of settings k)"
  by (simp add: map_of_transformParams_other map_add_def split: option.split)

theorem transformParams_lookup_witness:
  "map_of (transformParams [(''temperature'', JNum 0), (''topK'', JNum 3)] [(''temperature'', JNum 1)]) ''topK'' =
   Some (JNum 3)"
proof -
  have "distinct_keys [(''temperature'', JNum 0), (''topK'', JNum 3)]"
    "distinct_keys [(''temperature'', JNum 1)]" "''topK'' \<noteq> ''providerMetadata''"
    by simp_all
  from transformParams_lookup [OF this] show ?thesis by simp
qed

text \<open>
  C15. When both the defaults and the call carry provider metadata objects (the
  call's without repeated provider names), the result's metadata holds at each
  provider name the call's entry, merged recursively into the default entry when
  both are objects, and the default entry where the call has none or \<open>undefined\<close>.
\<close>

theorem transformParams_metadata_lookup:
  assumes "provider_metadata_of settings = Some sm" and "provider_metadata_of params = Some pm"
    and "distinct_keys pm"
  shows "\<exists>m. map_of (transformParams settings params) ''providerMetadata'' = Some (JObj m) \<and>
    map_of m k = (case map_of pm k of
                    None \<Rightarrow> map_of sm k
                  | Some v \<Rightarrow> if v = JUndefined then map_of sm k else Some (merge_value (js_get sm k) v))"
  using assms merge_entries_lookup [OF assms(3), of sm sm k]
  by (simp add: transformParams_def mergeObjects_Some_Some)

theorem transformParams_metadata_lookup_witness:
  "\<exists>m. map_of (transformParams [(''providerMetadata'', JObj [(''openai'', JObj [(''user'', JStr ''u'')])])]
                                [(''providerMetadata'', JObj [(''openai'', JObj [(''store'', JBool True)])])])
              ''providerMetadata'' = Some (JObj m) \<and>
       map_of m ''openai'' = Some (JObj [(''user'', JStr ''u''), (''store'', JBool True)])"
proof -
  have "provider_metadata_of [(''providerMetadata'', JObj [(''openai'', JObj [(''user'', JStr ''u'')])])] =
          Some [(''openai'', JObj [(''user'', JStr ''u'')])]"
    "provider_metadata_of [(''providerMetadata'', JObj [(''openai'', JObj [(''store'', JBool True)])])] =
          Some [(''openai'', JObj [(''store'', JBool True)])]"
    "distinct_keys [(''openai'', JObj [(''store'', JBool True)])]"
    by (simp_all add: provider_metadata_of_def js_get_def)
  from transformParams_metadata_lookup [OF this, of "''openai''"] show ?thesis
    by (simp add: js_get_def)
qed

text \<open>
  C16. The result has exactly the properties of the defaults and of the call, and
  \<open>providerMetadata\<close>.
\<close>

theorem transformParams_keys:
  "keys_of (transformParams settings params) = insert ''providerMetadata'' (keys_of settings \<union> keys_of params)"
  by (auto simp: transformParams_def)


end
