(* ===== verification/ObjectClient.thy ===== *)
theory ObjectClient
  imports JsValue
begin

text \<open>
  The class \<^verbatim>\<open>ObjectClient\<close> of \<^verbatim>\<open>src/packages/svelte/src/lib/object.svelte.ts\<close>
  (lines 17--208). Its fields \<^verbatim>\<open>#objects\<close>, \<^verbatim>\<open>#error\<close>, \<^verbatim>\<open>#loading\<close> and
  \<^verbatim>\<open>#abortController\<close> are the record \<open>client_state\<close>; the immutable options and the
  derived \<^verbatim>\<open>#api\<close> and \<^verbatim>\<open>#id\<close> are \<open>client_options\<close> with \<open>client_api\<close> and
  \<open>client_id\<close>. The library functions the class calls (\<^verbatim>\<open>parsePartialJson\<close>,
  \<^verbatim>\<open>isDeepEqualData\<close>, \<^verbatim>\<open>JSON.stringify\<close>, \<^verbatim>\<open>generateId\<close>) are the fields of
  \<open>collaborators\<close>, an interface the lemmas are stated over; the schema's
  \<^verbatim>\<open>safeValidateTypes\<close> is the option \<open>opt_schema\<close>, a function from the last
  partial object to an error or the validated value.

  \<^verbatim>\<open>submit\<close> is an \<^verbatim>\<open>async\<close> method: it runs synchronously up to the fetch call and
  then resumes at each \<^verbatim>\<open>await\<close> (the response, \<^verbatim>\<open>response.text()\<close>, each stream
  chunk, the end of the stream) when the environment delivers it. Each started
  \<^verbatim>\<open>submit\<close> is a task, numbered by the abort controller it created, whose
  program point is \<open>task_pc\<close>; the environment's deliveries and the user's calls
  are the events of \<open>client_step\<close>, so overlapping requests and a \<^verbatim>\<open>stop()\<close> in the
  middle of a stream are interleavings of steps. Callbacks and the fetch call are
  recorded in \<open>outputs\<close>; a callback's outcome (returning or throwing) is given by
  the option, a function of its argument.
\<close>

subsection \<open>Options, collaborators and state\<close>

text \<open>\<^verbatim>\<open>headers?: Record<string, string> | Headers\<close>\<close>

datatype headers_init = Headers_Record "string js_props" | Headers_Instance "string js_props"

text \<open>What a user callback does when called: return, or throw a value.\<close>

datatype cb_outcome = Returns | Throws thrown

text \<open>\<^verbatim>\<open>Experimental_ObjecClienttOptions<RESULT>\<close> (lines 17--71).\<close>

record ('o, 'r) client_options =
  opt_api :: "string option"
  opt_schema :: "'o option \<Rightarrow> js_error + 'r"
  opt_id :: "string option"
  opt_initialValue :: "'o option"
  opt_fetch :: "string option"
  opt_onFinish :: "('r option \<Rightarrow> js_error option \<Rightarrow> cb_outcome) option"
  opt_onError :: "(js_error \<Rightarrow> cb_outcome) option"
  opt_headers :: "headers_init option"

text \<open>The library functions the class calls, as an interface.\<close>

record ('i, 'o) collaborators =
  parsePartialJson :: "string \<Rightarrow> 'o option"
  isDeepEqualData :: "'o option \<Rightarrow> 'o option \<Rightarrow> bool"
  jsonStringify :: "'i \<Rightarrow> thrown + string"
  generateId :: string

text \<open>What a resolved fetch tells the client: \<^verbatim>\<open>response.ok\<close> and \<^verbatim>\<open>response.body != null\<close>.\<close>

record response =
  resp_ok :: bool
  resp_has_body :: bool

text \<open>Observable effects: the fetch call, aborting a signal, and the two callbacks.\<close>

datatype 'r client_output =
    Fetch_Call string string "string js_props" string nat
  | Abort_Signal nat
  | OnFinish_Call "'r option" "js_error option"
  | OnError_Call js_error

text \<open>
  Where a running \<^verbatim>\<open>submit\<close> waits: for the response, for \<^verbatim>\<open>response.text()\<close> of a
  response that is not ok, or in the pipe with its locals \<^verbatim>\<open>accumulatedText\<close> and
  \<^verbatim>\<open>latestObject\<close>.
\<close>

datatype 'o task_pc = Await_Fetch | Await_Text | Piping string "'o option"

record ('o, 'r) client_state =
  objects :: "string \<rightharpoonup> 'o option"
  error :: "js_error option"
  loading :: bool
  abortController :: "nat option"
  tasks :: "nat \<rightharpoonup> 'o task_pc"
  aborted :: "nat set"
  next_ctrl :: nat
  outputs :: "'r client_output list"

text \<open>\<^verbatim>\<open>#api = $derived(this.#options.api ?? "/api/completion")\<close>\<close>

definition client_api :: "('o, 'r) client_options \<Rightarrow> string" where
  "client_api opts = (case opt_api opts of Some a \<Rightarrow> a | None \<Rightarrow> ''/api/completion'')"

text \<open>\<^verbatim>\<open>#id = $derived(this.#options.id ?? generateId())\<close>\<close>

definition client_id :: "('o, 'r) client_options \<Rightarrow> ('i, 'o) collaborators \<Rightarrow> string" where
  "client_id opts env = (case opt_id opts of Some i \<Rightarrow> i | None \<Rightarrow> generateId env)"

text \<open>\<^verbatim>\<open>this.#options.fetch ?? fetch\<close>\<close>

definition actual_fetch :: "('o, 'r) client_options \<Rightarrow> string" where
  "actual_fetch opts = (case opt_fetch opts of Some f \<Rightarrow> f | None \<Rightarrow> ''fetch'')"

text \<open>
  \<^verbatim>\<open>{ "Content-Type": "application/json", ...this.#options.headers }\<close>: spreading a
  \<^verbatim>\<open>Headers\<close> instance copies nothing, since its entries are not own properties.
\<close>

fun own_headers :: "headers_init option \<Rightarrow> string js_props" where
  "own_headers None = []"
| "own_headers (Some (Headers_Record h)) = h"
| "own_headers (Some (Headers_Instance h)) = []"

definition request_headers :: "('o, 'r) client_options \<Rightarrow> string js_props" where
  "request_headers opts = js_spread [(''Content-Type'', ''application/json'')] (own_headers (opt_headers opts))"

subsection \<open>Operations\<close>

text \<open>\<^verbatim>\<open>constructor\<close> (lines 101--104).\<close>

definition client_init :: "('o, 'r) client_options \<Rightarrow> ('i, 'o) collaborators \<Rightarrow> ('o, 'r) client_state" where
  "client_init opts env =
     \<lparr>objects = [client_id opts env \<mapsto> opt_initialValue opts], error = None, loading = False,
      abortController = None, tasks = Map.empty, aborted = {}, next_ctrl = 0, outputs = []\<rparr>"

text \<open>The getter \<^verbatim>\<open>object\<close> (lines 85--87): \<^verbatim>\<open>this.#objects.get(this.#id)\<close>.\<close>

definition get_object :: "('o, 'r) client_options \<Rightarrow> ('i, 'o) collaborators \<Rightarrow> ('o, 'r) client_state \<Rightarrow> 'o option" where
  "get_object opts env s = (case objects s (client_id opts env) of Some v \<Rightarrow> v | None \<Rightarrow> None)"

text \<open>\<^verbatim>\<open>stop\<close> (lines 109--118): abort the current controller, if any, and clear both fields.\<close>

definition stop :: "('o, 'r) client_state \<Rightarrow> ('o, 'r) client_state" where
  "stop s =
     (let s1 = (case abortController s of
                  None \<Rightarrow> s
                | Some c \<Rightarrow> s\<lparr>aborted := insert c (aborted s), outputs := outputs s @ [Abort_Signal c]\<rparr>)
      in s1\<lparr>loading := False, abortController := None\<rparr>)"

text \<open>
  The \<^verbatim>\<open>catch\<close> block of \<^verbatim>\<open>submit\<close> (lines 193--206). An abort error returns at
  once. Otherwise the error is coalesced and passed to \<^verbatim>\<open>onError\<close>; when that
  callback throws, the exception leaves the \<^verbatim>\<open>catch\<close> block before the two fields
  are written.
\<close>

definition submit_catch :: "('o, 'r) client_options \<Rightarrow> thrown \<Rightarrow> ('o, 'r) client_state \<Rightarrow> ('o, 'r) client_state" where
  "submit_catch opts e s =
     (if isAbortError e then s
      else let ce = coalesce_error e in
        (case opt_onError opts of
           None \<Rightarrow> s\<lparr>loading := False, error := Some ce\<rparr>
         | Some cb \<Rightarrow>
             let s1 = s\<lparr>outputs := outputs s @ [OnError_Call ce]\<rparr> in
             (case cb ce of
                Returns \<Rightarrow> s1\<lparr>loading := False, error := Some ce\<rparr>
              | Throws _ \<Rightarrow> s1)))"

text \<open>
  \<^verbatim>\<open>submit\<close> up to its first \<^verbatim>\<open>await\<close> (lines 124--140): reset the object, set
  \<^verbatim>\<open>loading\<close>, clear \<^verbatim>\<open>error\<close>, install a fresh controller, build the request and call
  fetch. \<^verbatim>\<open>JSON.stringify\<close> may throw, which goes to the \<^verbatim>\<open>catch\<close> block.
\<close>

definition submit :: "('o, 'r) client_options \<Rightarrow> ('i, 'o) collaborators \<Rightarrow> 'i \<Rightarrow>
    ('o, 'r) client_state \<Rightarrow> ('o, 'r) client_state" where
  "submit opts env input s =
     (let t = next_ctrl s;
          s1 = s\<lparr>objects := (objects s)(client_id opts env \<mapsto> None), loading := True, error := None,
                  abortController := Some t, next_ctrl := Suc t\<rparr>
      in case jsonStringify env input of
           Inl e \<Rightarrow> submit_catch opts e s1
         | Inr body \<Rightarrow>
             s1\<lparr>tasks := (tasks s1)(t \<mapsto> Await_Fetch),
                outputs := outputs s1 @ [Fetch_Call (actual_fetch opts) (client_api opts) (request_headers opts) body t]\<rparr>)"

text \<open>
  The response arrives (lines 142--155): a response that is not ok waits for its
  text; an ok response without a body throws; otherwise piping starts with empty
  \<^verbatim>\<open>accumulatedText\<close> and undefined \<^verbatim>\<open>latestObject\<close>.
\<close>

definition on_response :: "('o, 'r) client_options \<Rightarrow> nat \<Rightarrow> response \<Rightarrow>
    ('o, 'r) client_state \<Rightarrow> ('o, 'r) client_state" where
  "on_response opts t r s =
     (if \<not> resp_ok r then s\<lparr>tasks := (tasks s)(t \<mapsto> Await_Text)\<rparr>
      else if \<not> resp_has_body r
      then submit_catch opts (Thrown_Error (new_Error ''The response body is empty.''))
             (s\<lparr>tasks := (tasks s)(t := None)\<rparr>)
      else s\<lparr>tasks := (tasks s)(t \<mapsto> Piping '''' None)\<rparr>)"

text \<open>
  \<^verbatim>\<open>throw new Error((await response.text()) ?? "Failed to fetch the response.")\<close>
  (lines 143--145); \<open>None\<close> is a text of \<open>undefined\<close>, which only a custom fetch can give.
\<close>

definition text_message :: "string option \<Rightarrow> string" where
  "text_message txt = (case txt of Some m \<Rightarrow> m | None \<Rightarrow> ''Failed to fetch the response.'')"

definition on_text :: "('o, 'r) client_options \<Rightarrow> nat \<Rightarrow> string option \<Rightarrow>
    ('o, 'r) client_state \<Rightarrow> ('o, 'r) client_state" where
  "on_text opts t txt s =
     submit_catch opts (Thrown_Error (new_Error (text_message txt))) (s\<lparr>tasks := (tasks s)(t := None)\<rparr>)"

text \<open>
  The sink's \<^verbatim>\<open>write\<close> (lines 157--168): append the chunk, parse the whole text, and
  store the parsed value when it differs from the last one stored by this task.
\<close>

definition stream_write :: "('i, 'o) collaborators \<Rightarrow> string \<Rightarrow> string \<Rightarrow> string \<times> 'o option \<Rightarrow>
    ('o, 'r) client_state \<Rightarrow> (string \<times> 'o option) \<times> ('o, 'r) client_state" where
  "stream_write env cid chunk al s =
     (let accumulatedText = fst al @ chunk;
          currentObject = parsePartialJson env accumulatedText
      in if \<not> isDeepEqualData env (snd al) currentObject
         then ((accumulatedText, currentObject), s\<lparr>objects := (objects s)(cid \<mapsto> currentObject)\<rparr>)
         else ((accumulatedText, snd al), s))"

text \<open>
  The sink's \<^verbatim>\<open>close\<close> (lines 170--190): clear \<^verbatim>\<open>loading\<close> and the controller, then,
  when \<^verbatim>\<open>onFinish\<close> is given, validate the last object and call it with either the
  value or the error. The outcome of the callback is returned: a throw makes the
  pipe reject.
\<close>

definition stream_close :: "('o, 'r) client_options \<Rightarrow> 'o option \<Rightarrow> ('o, 'r) client_state \<Rightarrow>
    ('o, 'r) client_state \<times> cb_outcome" where
  "stream_close opts latest s =
     (let s1 = s\<lparr>loading := False, abortController := None\<rparr> in
      case opt_onFinish opts of
        None \<Rightarrow> (s1, Returns)
      | Some cb \<Rightarrow>
          (case opt_schema opts latest of
             Inr v \<Rightarrow> (s1\<lparr>outputs := outputs s1 @ [OnFinish_Call (Some v) None]\<rparr>, cb (Some v) None)
           | Inl e \<Rightarrow> (s1\<lparr>outputs := outputs s1 @ [OnFinish_Call None (Some e)]\<rparr>, cb None (Some e))))"

subsection \<open>Events and steps\<close>

text \<open>
  The user's calls and the environment's deliveries to a task \<open>t\<close>. A task whose
  signal was aborted receives no response, text, chunk or end of stream any more,
  and is rejected only with an abort error.
\<close>

datatype 'i event =
    Submit 'i
  | Stop
  | Fetch_Resolved nat response
  | Text_Resolved nat "string option"
  | Chunk nat string
  | Stream_Closed nat
  | Task_Rejected nat thrown

definition finish_task :: "nat \<Rightarrow> ('o, 'r) client_state \<Rightarrow> ('o, 'r) client_state" where
  "finish_task t s = s\<lparr>tasks := (tasks s)(t := None)\<rparr>"

fun client_step :: "('o, 'r) client_options \<Rightarrow> ('i, 'o) collaborators \<Rightarrow> 'i event \<Rightarrow>
    ('o, 'r) client_state \<Rightarrow> ('o, 'r) client_state option" where
  "client_step opts env (Submit i) s = Some (submit opts env i s)"
| "client_step opts env Stop s = Some (stop s)"
| "client_step opts env (Fetch_Resolved t r) s =
     (if tasks s t = Some Await_Fetch \<and> t \<notin> aborted s then Some (on_response opts t r s) else None)"
| "client_step opts env (Text_Resolved t txt) s =
     (if tasks s t = Some Await_Text \<and> t \<notin> aborted s then Some (on_text opts t txt s) else None)"
| "client_step opts env (Chunk t c) s =
     (case tasks s t of
        Some (Piping acc latest) \<Rightarrow>
          if t \<in> aborted s then None
          else let (al, s') = stream_write env (client_id opts env) c (acc, latest) s
               in Some (s'\<lparr>tasks := (tasks s')(t \<mapsto> Piping (fst al) (snd al))\<rparr>)
      | _ \<Rightarrow> None)"
| "client_step opts env (Stream_Closed t) s =
     (case tasks s t of
        Some (Piping acc latest) \<Rightarrow>
          if t \<in> aborted s then None
          else let (s', r) = stream_close opts latest (finish_task t s)
               in Some (case r of Returns \<Rightarrow> s' | Throws x \<Rightarrow> submit_catch opts x s')
      | _ \<Rightarrow> None)"
| "client_step opts env (Task_Rejected t e) s =
     (if tasks s t \<noteq> None \<and> (t \<in> aborted s \<longrightarrow> isAbortError e)
      then Some (submit_catch opts e (finish_task t s)) else None)"

fun client_run :: "('o, 'r) client_options \<Rightarrow> ('i, 'o) collaborators \<Rightarrow> 'i event list \<Rightarrow>
    ('o, 'r) client_state \<Rightarrow> ('o, 'r) client_state option" where
  "client_run opts env [] s = Some s"
| "client_run opts env (e # es) s =
     (case client_step opts env e s of None \<Rightarrow> None | Some s' \<Rightarrow> client_run opts env es s')"

inductive reachable :: "('o, 'r) client_options \<Rightarrow> ('i, 'o) collaborators \<Rightarrow> ('o, 'r) client_state \<Rightarrow> bool"
  for opts env where
  init: "reachable opts env (client_init opts env)"
| step: "reachable opts env s \<Longrightarrow> client_step opts env e s = Some s' \<Longrightarrow> reachable opts env s'"

text \<open>
  \<open>catch_completes opts e\<close>: the \<^verbatim>\<open>catch\<close> block runs to its end on \<open>e\<close> (the error is
  not an abort error and \<^verbatim>\<open>onError\<close>, if given, returns).
\<close>

definition catch_completes :: "('o, 'r) client_options \<Rightarrow> thrown \<Rightarrow> bool" where
  "catch_completes opts e =
     (\<not> isAbortError e \<and>
      (case opt_onError opts of None \<Rightarrow> True | Some cb \<Rightarrow> cb (coalesce_error e) = Returns))"

text \<open>
  The object map has exactly the client's key; a current controller is the one the
  latest \<^verbatim>\<open>submit\<close> created and has not been aborted; \<^verbatim>\<open>loading\<close> is only shown with
  a controller in place (so \<^verbatim>\<open>stop()\<close> has a request to abort); tasks and aborted
  signals are among the controllers created so far.
\<close>

definition client_inv :: "('o, 'r) client_options \<Rightarrow> ('i, 'o) collaborators \<Rightarrow> ('o, 'r) client_state \<Rightarrow> bool" where
  "client_inv opts env s \<longleftrightarrow>
     (\<forall>k. objects s k \<noteq> None \<longleftrightarrow> k = client_id opts env) \<and>
     (\<forall>c. abortController s = Some c \<longrightarrow> Suc c = next_ctrl s \<and> c \<notin> aborted s) \<and>
     (loading s \<longrightarrow> abortController s \<noteq> None) \<and>
     (\<forall>t. tasks s t \<noteq> None \<longrightarrow> t < next_ctrl s) \<and> (\<forall>c \<in> aborted s. c < next_ctrl s)"

text \<open>
  After \<^verbatim>\<open>stop()\<close> with no request left unaborted, no event other than a new
  \<^verbatim>\<open>submit\<close> changes the object or the error, and \<^verbatim>\<open>loading\<close> stays clear.
\<close>

definition stopped :: "('o, 'r) client_state \<Rightarrow> bool" where
  "stopped s \<longleftrightarrow> (\<forall>t. tasks s t \<noteq> None \<longrightarrow> t \<in> aborted s) \<and> abortController s = None \<and> \<not> loading s"

subsection \<open>A concrete client\<close>

text \<open>
  An instance on which runs are evaluated: JSON values as partial objects, a
  stand-in parser that reads any non-empty text as a string value, deep equality
  as equality, a schema that accepts exactly the string values, and callbacks
  that return.
\<close>

definition demo_opts :: "(jsval, string) client_options" where
  "demo_opts = \<lparr>opt_api = None, opt_schema = (\<lambda>v. case v of Some (JStr x) \<Rightarrow> Inr x | _ \<Rightarrow> Inl (Error ''AI_TypeValidationError'' ''Type validation failed'')),
     opt_id = Some ''obj'', opt_initialValue = None, opt_fetch = None,
     opt_onFinish = Some (\<lambda>_ _. Returns), opt_onError = Some (\<lambda>_. Returns), opt_headers = None\<rparr>"

definition demo_env :: "(string, jsval) collaborators" where
  "demo_env = \<lparr>parsePartialJson = (\<lambda>s. if s = [] then None else Some (JStr s)),
     isDeepEqualData = (\<lambda>a b. a = b), jsonStringify = Inr, generateId = ''id0''\<rparr>"

subsection \<open>What each operation writes\<close>

lemma stop_fields [client_simps]:
  "objects (stop s) = objects s" "error (stop s) = error s" "loading (stop s) = False"
  "abortController (stop s) = None" "tasks (stop s) = tasks s" "next_ctrl (stop s) = next_ctrl s"
  "aborted (stop s) = aborted s \<union> set_option (abortController s)"
  "outputs (stop s) = outputs s @ (case abortController s of None \<Rightarrow> [] | Some c \<Rightarrow> [Abort_Signal c])"
  by (simp_all add: stop_def split: option.split)

lemma submit_catch_fields [client_simps]:
  "objects (submit_catch opts e s) = objects s"
  "abortController (submit_catch opts e s) = abortController s"
  "tasks (submit_catch opts e s) = tasks s"
  "aborted (submit_catch opts e s) = aborted s"
  "next_ctrl (submit_catch opts e s) = next_ctrl s"
  "loading (submit_catch opts e s) = (\<not> catch_completes opts e \<and> loading s)"
  "error (submit_catch opts e s) = (if catch_completes opts e then Some (coalesce_error e) else error s)"
  "outputs (submit_catch opts e s) =
     outputs s @ (if \<not> isAbortError e \<and> opt_onError opts \<noteq> None then [OnError_Call (coalesce_error e)] else [])"
  by (auto simp: submit_catch_def catch_completes_def Let_def split: option.split cb_outcome.split)

lemma submit_catch_abort [simp]: "isAbortError e \<Longrightarrow> submit_catch opts e s = s"
  by (simp add: submit_catch_def)

lemma finish_task_fields [client_simps]:
  "objects (finish_task t s) = objects s" "error (finish_task t s) = error s"
  "loading (finish_task t s) = loading s" "abortController (finish_task t s) = abortController s"
  "tasks (finish_task t s) = (tasks s)(t := None)" "aborted (finish_task t s) = aborted s"
  "next_ctrl (finish_task t s) = next_ctrl s" "outputs (finish_task t s) = outputs s"
  by (simp_all add: finish_task_def)

lemma stream_close_fields [client_simps]:
  "objects (fst (stream_close opts l s)) = objects s"
  "error (fst (stream_close opts l s)) = error s"
  "loading (fst (stream_close opts l s)) = False"
  "abortController (fst (stream_close opts l s)) = None"
  "tasks (fst (stream_close opts l s)) = tasks s"
  "aborted (fst (stream_close opts l s)) = aborted s"
  "next_ctrl (fst (stream_close opts l s)) = next_ctrl s"
  "outputs (fst (stream_close opts l s)) =
     outputs s @ (case opt_onFinish opts of None \<Rightarrow> []
                  | Some cb \<Rightarrow> [case opt_schema opts l of Inr v \<Rightarrow> OnFinish_Call (Some v) None
                                | Inl e \<Rightarrow> OnFinish_Call None (Some e)])"
  by (simp_all add: stream_close_def Let_def split: option.split sum.split)

lemma stream_write_fields [client_simps]:
  "objects (snd (stream_write env cid c al s)) =
     (if isDeepEqualData env (snd al) (parsePartialJson env (fst al @ c)) then objects s
      else (objects s)(cid \<mapsto> parsePartialJson env (fst al @ c)))"
  "error (snd (stream_write env cid c al s)) = error s"
  "loading (snd (stream_write env cid c al s)) = loading s"
  "abortController (snd (stream_write env cid c al s)) = abortController s"
  "tasks (snd (stream_write env cid c al s)) = tasks s"
  "aborted (snd (stream_write env cid c al s)) = aborted s"
  "next_ctrl (snd (stream_write env cid c al s)) = next_ctrl s"
  "outputs (snd (stream_write env cid c al s)) = outputs s"
  "fst (stream_write env cid c al s) =
     (fst al @ c, if isDeepEqualData env (snd al) (parsePartialJson env (fst al @ c)) then snd al
                  else parsePartialJson env (fst al @ c))"
  by (simp_all add: stream_write_def Let_def)

lemma submit_fields [client_simps]:
  "objects (submit opts env i s) = (objects s)(client_id opts env \<mapsto> None)"
  "abortController (submit opts env i s) = Some (next_ctrl s)"
  "next_ctrl (submit opts env i s) = Suc (next_ctrl s)"
  "aborted (submit opts env i s) = aborted s"
  "tasks (submit opts env i s) =
     (case jsonStringify env i of Inl _ \<Rightarrow> tasks s | Inr _ \<Rightarrow> (tasks s)(next_ctrl s \<mapsto> Await_Fetch))"
  "loading (submit opts env i s) =
     (case jsonStringify env i of Inl e \<Rightarrow> \<not> catch_completes opts e | Inr _ \<Rightarrow> True)"
  "error (submit opts env i s) =
     (case jsonStringify env i of Inl e \<Rightarrow> if catch_completes opts e then Some (coalesce_error e) else None
      | Inr _ \<Rightarrow> None)"
  by (simp_all add: submit_def Let_def client_simps split: sum.split)

lemma on_response_fields [client_simps]:
  "objects (on_response opts t r s) = objects s"
  "abortController (on_response opts t r s) = abortController s"
  "next_ctrl (on_response opts t r s) = next_ctrl s"
  "aborted (on_response opts t r s) = aborted s"
  "tasks (on_response opts t r s) =
     (tasks s)(t := if \<not> resp_ok r then Some Await_Text
                    else if \<not> resp_has_body r then None else Some (Piping '''' None))"
  "loading (on_response opts t r s) =
     (loading s \<and> \<not> (resp_ok r \<and> \<not> resp_has_body r \<and>
        catch_completes opts (Thrown_Error (new_Error ''The response body is empty.''))))"
  "error (on_response opts t r s) =
     (if resp_ok r \<and> \<not> resp_has_body r \<and>
         catch_completes opts (Thrown_Error (new_Error ''The response body is empty.''))
      then Some (new_Error ''The response body is empty.'') else error s)"
  by (auto simp: on_response_def client_simps finish_task_def [symmetric])

lemma on_text_fields [client_simps]:
  "objects (on_text opts t txt s) = objects s"
  "abortController (on_text opts t txt s) = abortController s"
  "next_ctrl (on_text opts t txt s) = next_ctrl s"
  "aborted (on_text opts t txt s) = aborted s"
  "tasks (on_text opts t txt s) = (tasks s)(t := None)"
  "loading (on_text opts t txt s) = (loading s \<and> \<not> catch_completes opts (Thrown_Error (new_Error (text_message txt))))"
  "error (on_text opts t txt s) =
     (if catch_completes opts (Thrown_Error (new_Error (text_message txt)))
      then Some (new_Error (text_message txt)) else error s)"
  by (auto simp: on_text_def client_simps finish_task_def [symmetric])

subsection \<open>The state invariant\<close>

lemma client_inv_init: "client_inv opts env (client_init opts env)"
  by (simp add: client_inv_def client_init_def)

lemma client_inv_step:
  assumes "client_step opts env e s = Some s'" and "client_inv opts env s"
  shows "client_inv opts env s'"
proof (cases e)
  case (Submit i)
  with assms show ?thesis
    by (auto simp: client_inv_def client_simps less_Suc_eq split: sum.splits)
next
  case Stop
  with assms show ?thesis
    by (auto simp: client_inv_def client_simps split: option.splits)
next
  case (Fetch_Resolved t r)
  with assms show ?thesis
    by (auto simp: client_inv_def client_simps split: if_splits)
next
  case (Text_Resolved t m)
  with assms show ?thesis
    by (auto simp: client_inv_def client_simps split: if_splits)
next
  case (Chunk t c)
  with assms show ?thesis
    by (auto simp: client_inv_def client_simps case_prod_beta split: option.splits task_pc.splits if_splits)
next
  case (Stream_Closed t)
  with assms show ?thesis
    by (auto simp: client_inv_def client_simps case_prod_beta split: option.splits task_pc.splits if_splits cb_outcome.splits)
next
  case (Task_Rejected t x)
  with assms show ?thesis
    by (auto simp: client_inv_def client_simps split: if_splits)
qed

lemma reachable_client_inv: "reachable opts env s \<Longrightarrow> client_inv opts env s"
proof (induction rule: reachable.induct)
  case init
  show ?case by (rule client_inv_init)
next
  case (step s e s')
  then show ?case by (blast intro: client_inv_step)
qed

subsection \<open>Streaming: the object is the parse of the text received so far\<close>

lemma chunk_step:
  assumes "tasks s t = Some (Piping acc l)" and "t \<notin> aborted s"
  shows "client_step opts env (Chunk t c) s =
    Some ((snd (stream_write env (client_id opts env) c (acc, l) s))
            \<lparr>tasks := (tasks s)(t \<mapsto> Piping (fst (fst (stream_write env (client_id opts env) c (acc, l) s)))
                                         (snd (fst (stream_write env (client_id opts env) c (acc, l) s))))\<rparr>)"
  using assms by (simp add: case_prod_beta client_simps)

text \<open>
  A run of chunks for one piping task, when deep equality is equality of data and
  the object slot holds the task's \<^verbatim>\<open>latestObject\<close>: every chunk is accepted, the
  task's text grows by the chunks, and slot and \<^verbatim>\<open>latestObject\<close> both hold the parse
  of the whole text. Nothing else changes.
\<close>

lemma run_chunks:
  assumes deq: "isDeepEqualData env = (\<lambda>a b. a = b)"
  shows "tasks s t = Some (Piping acc l) \<Longrightarrow> t \<notin> aborted s \<Longrightarrow>
    objects s (client_id opts env) = Some l \<Longrightarrow>
    \<exists>s'. client_run opts env (map (Chunk t) cs) s = Some s' \<and>
      (let l' = (if cs = [] then l else parsePartialJson env (acc @ concat cs)) in
       tasks s' = (tasks s)(t \<mapsto> Piping (acc @ concat cs) l') \<and>
       objects s' = (objects s)(client_id opts env \<mapsto> l')) \<and>
      error s' = error s \<and> loading s' = loading s \<and> abortController s' = abortController s \<and>
      aborted s' = aborted s \<and> next_ctrl s' = next_ctrl s \<and> outputs s' = outputs s"
proof (induction cs arbitrary: s acc l)
  case Nil
  then show ?case by (simp add: fun_eq_iff)
next
  case (Cons c cs)
  let ?cid = "client_id opts env"
  let ?p = "parsePartialJson env (acc @ c)"
  define s1 where "s1 = (snd (stream_write env ?cid c (acc, l) s))
      \<lparr>tasks := (tasks s)(t \<mapsto> Piping (fst (fst (stream_write env ?cid c (acc, l) s)))
                                   (snd (fst (stream_write env ?cid c (acc, l) s))))\<rparr>"
  have s1: "client_step opts env (Chunk t c) s = Some s1"
    unfolding s1_def by (rule chunk_step [OF Cons.prems(1,2)])
  have t1: "tasks s1 = (tasks s)(t \<mapsto> Piping (acc @ c) ?p)"
    using deq by (simp add: s1_def client_simps)
  have o1: "objects s1 = (objects s)(?cid \<mapsto> ?p)"
    using deq Cons.prems(3) by (simp add: s1_def client_simps map_upd_triv)
  have f1: "error s1 = error s" "loading s1 = loading s" "abortController s1 = abortController s"
    "aborted s1 = aborted s" "next_ctrl s1 = next_ctrl s" "outputs s1 = outputs s"
    by (simp_all add: s1_def client_simps)
  have "tasks s1 t = Some (Piping (acc @ c) ?p)" "t \<notin> aborted s1" "objects s1 ?cid = Some ?p"
    using t1 o1 f1(4) Cons.prems(2) by simp_all
  from Cons.IH [OF this] obtain s' where
    run: "client_run opts env (map (Chunk t) cs) s1 = Some s'"
    and rest: "let l' = (if cs = [] then ?p else parsePartialJson env ((acc @ c) @ concat cs)) in
       tasks s' = (tasks s1)(t \<mapsto> Piping ((acc @ c) @ concat cs) l') \<and>
       objects s' = (objects s1)(?cid \<mapsto> l')"
    and f': "error s' = error s1" "loading s' = loading s1" "abortController s' = abortController s1"
            "aborted s' = aborted s1" "next_ctrl s' = next_ctrl s1" "outputs s' = outputs s1"
    by blast
  from s1 run have "client_run opts env (map (Chunk t) (c # cs)) s = Some s'" by simp
  moreover from rest t1 o1 have
    "let l' = (if c # cs = [] then l else parsePartialJson env (acc @ concat (c # cs))) in
       tasks s' = (tasks s)(t \<mapsto> Piping (acc @ concat (c # cs)) l') \<and>
       objects s' = (objects s)(?cid \<mapsto> l')"
    by (cases "cs = []") (simp_all add: Let_def)
  moreover from f' f1 have "error s' = error s \<and> loading s' = loading s \<and>
      abortController s' = abortController s \<and> aborted s' = aborted s \<and>
      next_ctrl s' = next_ctrl s \<and> outputs s' = outputs s"
    by simp
  ultimately show ?case by blast
qed

lemma submit_then_response:
  assumes "client_inv opts env s" and "jsonStringify env i = Inr body"
    and "resp_ok r" and "resp_has_body r"
  shows "client_run opts env [Submit i, Fetch_Resolved (next_ctrl s) r] s =
           Some (on_response opts (next_ctrl s) r (submit opts env i s))"
proof -
  from assms(1) have "next_ctrl s \<notin> aborted s" by (auto simp: client_inv_def)
  with assms(2) show ?thesis by (simp add: client_simps)
qed

lemma piping_after_response:
  assumes "jsonStringify env i = Inr body" and "resp_ok r" and "resp_has_body r"
  shows "tasks (on_response opts (next_ctrl s) r (submit opts env i s)) (next_ctrl s) = Some (Piping '''' None)"
    and "objects (on_response opts (next_ctrl s) r (submit opts env i s)) (client_id opts env) = Some None"
    and "loading (on_response opts (next_ctrl s) r (submit opts env i s))"
    and "error (on_response opts (next_ctrl s) r (submit opts env i s)) = None"
    and "next_ctrl s \<notin> aborted (on_response opts (next_ctrl s) r (submit opts env i s)) \<longleftrightarrow> next_ctrl s \<notin> aborted s"
  using assms by (simp_all add: client_simps)

lemma submit_outputs:
  "outputs (submit opts env i s) =
     outputs s @ (case jsonStringify env i of
                    Inl e \<Rightarrow> (if \<not> isAbortError e \<and> opt_onError opts \<noteq> None
                             then [OnError_Call (coalesce_error e)] else [])
                  | Inr body \<Rightarrow> [Fetch_Call (actual_fetch opts) (client_api opts) (request_headers opts) body (next_ctrl s)])"
  by (simp add: submit_def Let_def client_simps split: sum.split)

lemma run_append: "client_run opts env (xs @ ys) s =
    (case client_run opts env xs s of None \<Rightarrow> None | Some s' \<Rightarrow> client_run opts env ys s')"
  by (induction xs arbitrary: s) (simp_all split: option.split)

lemma streaming_run:
  assumes "client_inv opts env s" and deq: "isDeepEqualData env = (\<lambda>a b. a = b)"
    and "jsonStringify env i = Inr body" and "resp_ok r" and "resp_has_body r" and "cs \<noteq> []"
  shows "\<exists>s'. client_run opts env (Submit i # Fetch_Resolved (next_ctrl s) r # map (Chunk (next_ctrl s)) cs) s = Some s' \<and>
    tasks s' (next_ctrl s) = Some (Piping (concat cs) (parsePartialJson env (concat cs))) \<and>
    objects s' (client_id opts env) = Some (parsePartialJson env (concat cs)) \<and>
    next_ctrl s \<notin> aborted s' \<and> loading s' \<and> error s' = None \<and>
    outputs s' = outputs s @ [Fetch_Call (actual_fetch opts) (client_api opts) (request_headers opts) body (next_ctrl s)]"
proof -
  let ?t = "next_ctrl s"
  let ?s2 = "on_response opts ?t r (submit opts env i s)"
  from assms(1) have na: "?t \<notin> aborted s" by (auto simp: client_inv_def)
  have run2: "client_run opts env [Submit i, Fetch_Resolved ?t r] s = Some ?s2"
    using assms(1,3-5) by (rule submit_then_response)
  note p = piping_after_response [OF assms(3-5), where opts = opts and s = s]
  from p(5) na have na2: "?t \<notin> aborted ?s2" by simp
  have o2: "outputs ?s2 = outputs s @ [Fetch_Call (actual_fetch opts) (client_api opts) (request_headers opts) body ?t]"
    using assms(3-5) by (simp add: on_response_def submit_outputs)
  let ?l = "if cs = [] then None else parsePartialJson env (concat cs)"
  have "\<exists>s'. client_run opts env (map (Chunk ?t) cs) ?s2 = Some s' \<and>
      tasks s' = (tasks ?s2)(?t \<mapsto> Piping (concat cs) ?l) \<and>
      objects s' = (objects ?s2)(client_id opts env \<mapsto> ?l) \<and>
      error s' = error ?s2 \<and> loading s' = loading ?s2 \<and> aborted s' = aborted ?s2 \<and> outputs s' = outputs ?s2"
    using run_chunks [OF deq p(1) na2 p(2), where cs = cs, unfolded append.simps(1) Let_def] by blast
  then obtain s' where run: "client_run opts env (map (Chunk ?t) cs) ?s2 = Some s'"
    and st: "tasks s' = (tasks ?s2)(?t \<mapsto> Piping (concat cs) ?l)"
      "objects s' = (objects ?s2)(client_id opts env \<mapsto> ?l)"
    and fl: "error s' = error ?s2" "loading s' = loading ?s2" "aborted s' = aborted ?s2" "outputs s' = outputs ?s2"
    by blast
  from run2 run have "client_run opts env (Submit i # Fetch_Resolved ?t r # map (Chunk ?t) cs) s = Some s'"
    using run_append [of opts env "[Submit i, Fetch_Resolved ?t r]" "map (Chunk ?t) cs" s] by simp
  with st fl p(3,4) na2 o2 assms(6) show ?thesis by simp
qed

text \<open>
  C1. While a request streams, the exposed object is the partial-JSON parse of all
  the text received so far: after \<^verbatim>\<open>submit\<close>, an ok response with a body and a
  non-empty sequence of chunks, every event is accepted and \<^verbatim>\<open>object\<close> is
  \<^verbatim>\<open>parsePartialJson\<close> of the concatenated chunks, with \<^verbatim>\<open>loading\<close> set and no error
  (deep equality being equality of data).
\<close>

theorem streamed_object_is_parse:
  assumes "reachable opts env s" and "isDeepEqualData env = (\<lambda>a b. a = b)"
    and "jsonStringify env i = Inr body" and "resp_ok r" and "resp_has_body r" and "cs \<noteq> []"
  shows "\<exists>s'. client_run opts env (Submit i # Fetch_Resolved (next_ctrl s) r # map (Chunk (next_ctrl s)) cs) s = Some s' \<and>
    get_object opts env s' = parsePartialJson env (concat cs) \<and> loading s' \<and> error s' = None"
proof -
  from assms(1) have inv: "client_inv opts env s" by (rule reachable_client_inv)
  from streaming_run [OF inv assms(2-6)] obtain s' where
    run: "client_run opts env (Submit i # Fetch_Resolved (next_ctrl s) r # map (Chunk (next_ctrl s)) cs) s = Some s'"
    and obj: "objects s' (client_id opts env) = Some (parsePartialJson env (concat cs))"
    and fl: "loading s'" "error s' = None"
    by blast
  from obj have "get_object opts env s' = parsePartialJson env (concat cs)" by (simp add: get_object_def)
  with run fl show ?thesis by blast
qed

theorem streamed_object_is_parse_witness:
  "\<exists>s'. client_run demo_opts demo_env
          [Submit ''q'', Fetch_Resolved 0 \<lparr>resp_ok = True, resp_has_body = True\<rparr>, Chunk 0 ''{a'', Chunk 0 ''b}'']
          (client_init demo_opts demo_env) = Some s' \<and>
        get_object demo_opts demo_env s' = Some (JStr ''{ab}'') \<and> loading s' \<and> error s' = None"
proof -
  have r: "reachable demo_opts demo_env (client_init demo_opts demo_env)" by (rule reachable.init)
  have d: "isDeepEqualData demo_env = (\<lambda>a b. a = b)" by (simp add: demo_env_def)
  have j: "jsonStringify demo_env ''q'' = Inr ''q''" by (simp add: demo_env_def)
  have "resp_ok \<lparr>resp_ok = True, resp_has_body = True\<rparr>" "resp_has_body \<lparr>resp_ok = True, resp_has_body = True\<rparr>"
    by simp_all
  from streamed_object_is_parse [OF r d j this, of "[''{a'', ''b}'']"] show ?thesis
    by (simp add: client_init_def demo_env_def)
qed

lemma run_reachable: "client_run opts env evs s = Some s' \<Longrightarrow> reachable opts env s \<Longrightarrow> reachable opts env s'"
proof (induction evs arbitrary: s)
  case Nil
  then show ?case by simp
next
  case (Cons e evs)
  then obtain s1 where "client_step opts env e s = Some s1" and "client_run opts env evs s1 = Some s'"
    by (auto split: option.splits)
  with Cons.prems(2) Cons.IH show ?case by (blast intro: reachable.step)
qed

text \<open>
  C2. \<^verbatim>\<open>submit\<close> discards the current object at once and installs a new controller;
  when the input serialises, it also sets \<^verbatim>\<open>loading\<close>, clears \<^verbatim>\<open>error\<close>, leaves the
  new request waiting for its response and issues one fetch call with the client's
  endpoint, headers and body.
\<close>

theorem submit_resets_state:
  "get_object opts env (submit opts env i s) = None \<and>
   abortController (submit opts env i s) = Some (next_ctrl s) \<and>
   (jsonStringify env i = Inr body \<longrightarrow>
      loading (submit opts env i s) \<and> error (submit opts env i s) = None \<and>
      tasks (submit opts env i s) (next_ctrl s) = Some Await_Fetch \<and>
      outputs (submit opts env i s) =
        outputs s @ [Fetch_Call (actual_fetch opts) (client_api opts) (request_headers opts) body (next_ctrl s)])"
  by (simp add: get_object_def client_simps submit_outputs)

theorem submit_resets_state_witness:
  "get_object demo_opts demo_env (submit demo_opts demo_env ''q'' (client_init demo_opts demo_env)) = None \<and>
   loading (submit demo_opts demo_env ''q'' (client_init demo_opts demo_env)) \<and>
   outputs (submit demo_opts demo_env ''q'' (client_init demo_opts demo_env)) =
     [Fetch_Call ''fetch'' ''/api/completion'' [(''Content-Type'', ''application/json'')] ''q'' 0]"
  using submit_resets_state [of demo_opts demo_env "''q''" "client_init demo_opts demo_env" "''q''"]
  by (simp add: demo_env_def demo_opts_def client_init_def actual_fetch_def client_api_def
      request_headers_def js_spread_def)

subsection \<open>Cancellation\<close>

lemma stopped_step:
  assumes "stopped s" and "client_step opts env e s = Some s'" and "\<forall>i. e \<noteq> Submit i"
  shows "stopped s' \<and> objects s' = objects s \<and> error s' = error s"
proof (cases e)
  case (Submit i)
  with assms(3) show ?thesis by blast
next
  case Stop
  with assms(1,2) show ?thesis by (auto simp: stopped_def client_simps)
next
  case (Fetch_Resolved t r)
  with assms(1,2) show ?thesis by (auto simp: stopped_def split: if_splits)
next
  case (Text_Resolved t m)
  with assms(1,2) show ?thesis by (auto simp: stopped_def split: if_splits)
next
  case (Chunk t c)
  with assms(1,2) show ?thesis by (auto simp: stopped_def split: option.splits task_pc.splits if_splits)
next
  case (Stream_Closed t)
  with assms(1,2) show ?thesis by (auto simp: stopped_def split: option.splits task_pc.splits if_splits)
next
  case (Task_Rejected t x)
  with assms(1,2) show ?thesis by (auto simp: stopped_def client_simps split: if_splits)
qed

lemma stopped_run:
  "stopped s \<Longrightarrow> \<forall>i. Submit i \<notin> set evs \<Longrightarrow> client_run opts env evs s = Some s' \<Longrightarrow>
   stopped s' \<and> objects s' = objects s \<and> error s' = error s"
proof (induction evs arbitrary: s)
  case Nil
  then show ?case by simp
next
  case (Cons e evs)
  from Cons.prems(3) obtain s1 where s1: "client_step opts env e s = Some s1"
    and run: "client_run opts env evs s1 = Some s'"
    by (auto split: option.splits)
  from Cons.prems(2) have "\<forall>i. e \<noteq> Submit i" by auto
  with Cons.prems(1) s1 have "stopped s1 \<and> objects s1 = objects s \<and> error s1 = error s"
    by (rule stopped_step)
  with Cons.IH [of s1] Cons.prems(2) run show ?case by auto
qed

text \<open>
  C3. Cancelling in the middle of a stream: when every running request is the
  current one or already aborted, \<^verbatim>\<open>stop()\<close> followed by any events other than a new
  \<^verbatim>\<open>submit\<close> keeps the partial object as it was, sets no error and leaves
  \<^verbatim>\<open>loading\<close> clear.
\<close>

theorem stop_keeps_partial_object:
  assumes "\<forall>t. tasks s t \<noteq> None \<longrightarrow> t \<in> aborted s \<or> abortController s = Some t"
    and "\<forall>i. Submit i \<notin> set evs"
    and "client_run opts env (Stop # evs) s = Some s'"
  shows "objects s' = objects s \<and> error s' = error s \<and> \<not> loading s'"
proof -
  have "stopped (stop s)" using assms(1) by (auto simp: stopped_def client_simps)
  moreover from assms(3) have "client_run opts env evs (stop s) = Some s'" by simp
  ultimately have "stopped s' \<and> objects s' = objects (stop s) \<and> error s' = error (stop s)"
    using assms(2) by (intro stopped_run)
  then show ?thesis by (simp add: stopped_def client_simps)
qed

theorem stop_keeps_partial_object_witness:
  "let s = the (client_run demo_opts demo_env
                 [Submit ''q'', Fetch_Resolved 0 \<lparr>resp_ok = True, resp_has_body = True\<rparr>, Chunk 0 ''{a'']
                 (client_init demo_opts demo_env));
       s' = the (client_run demo_opts demo_env [Stop, Task_Rejected 0 abort_reason] s)
   in get_object demo_opts demo_env s' = Some (JStr ''{a'') \<and> error s' = None \<and> \<not> loading s'"
proof -
  define s where "s = the (client_run demo_opts demo_env
                 [Submit ''q'', Fetch_Resolved 0 \<lparr>resp_ok = True, resp_has_body = True\<rparr>, Chunk 0 ''{a'']
                 (client_init demo_opts demo_env))"
  define s' where "s' = the (client_run demo_opts demo_env [Stop, Task_Rejected 0 abort_reason] s)"
  have s: "tasks s = [0 \<mapsto> Piping ''{a'' (Some (JStr ''{a''))]" "abortController s = Some 0"
    "aborted s = {}" "error s = None" "objects s = [''obj'' \<mapsto> Some (JStr ''{a'')]"
    by (simp_all add: s_def demo_opts_def demo_env_def client_init_def submit_def on_response_def
        stream_write_def get_object_def client_id_def Let_def)
  have run: "client_run demo_opts demo_env [Stop, Task_Rejected 0 abort_reason] s = Some s'"
    using s by (simp add: s'_def client_simps)
  have "\<forall>t. tasks s t \<noteq> None \<longrightarrow> t \<in> aborted s \<or> abortController s = Some t" using s by simp
  moreover have "\<forall>i. Submit i \<notin> set [Task_Rejected 0 abort_reason]" by simp
  ultimately have "objects s' = objects s \<and> error s' = error s \<and> \<not> loading s'"
    using run by (rule stop_keeps_partial_object)
  with s show ?thesis
    unfolding Let_def s_def [symmetric] s'_def [symmetric]
    by (simp add: get_object_def client_id_def demo_opts_def)
qed

subsection \<open>Error paths\<close>

lemma catch_completes_new_Error:
  "(\<forall>cb. opt_onError opts = Some cb \<longrightarrow> cb (new_Error m) = Returns) \<Longrightarrow>
   catch_completes opts (Thrown_Error (new_Error m))"
  by (auto simp: catch_completes_def new_Error_def split: option.split)

text \<open>
  C4. A response that is not ok: once its text arrives, \<^verbatim>\<open>error\<close> holds an \<^verbatim>\<open>Error\<close>
  whose message is that text (the default message only when the text is
  \<open>undefined\<close>), \<^verbatim>\<open>loading\<close> is cleared and the request is over; the object is left
  as it was. (\<^verbatim>\<open>onError\<close>, if given, returns.)
\<close>

theorem non_ok_response_sets_error:
  assumes "tasks s t = Some Await_Fetch" and "t \<notin> aborted s" and "\<not> resp_ok r"
    and "\<forall>cb. opt_onError opts = Some cb \<longrightarrow> cb (new_Error (text_message m)) = Returns"
  shows "\<exists>s'. client_run opts env [Fetch_Resolved t r, Text_Resolved t m] s = Some s' \<and>
    error s' = Some (new_Error (text_message m)) \<and> \<not> loading s' \<and> tasks s' t = None \<and>
    objects s' = objects s"
  using assms catch_completes_new_Error [OF assms(4)] by (simp add: client_simps)

theorem non_ok_response_sets_error_witness:
  "\<exists>s'. client_run demo_opts demo_env
          [Fetch_Resolved 0 \<lparr>resp_ok = False, resp_has_body = True\<rparr>, Text_Resolved 0 (Some ''Bad'')]
          (submit demo_opts demo_env ''q'' (client_init demo_opts demo_env)) = Some s' \<and>
        error s' = Some (new_Error ''Bad'') \<and> \<not> loading s'"
proof -
  let ?s = "submit demo_opts demo_env ''q'' (client_init demo_opts demo_env)"
  have "tasks ?s 0 = Some Await_Fetch" "0 \<notin> aborted ?s"
    "\<not> resp_ok \<lparr>resp_ok = False, resp_has_body = True\<rparr>"
    "\<forall>cb. opt_onError demo_opts = Some cb \<longrightarrow> cb (new_Error (text_message (Some ''Bad''))) = Returns"
    by (simp_all add: client_simps demo_env_def demo_opts_def client_init_def)
  from non_ok_response_sets_error [OF this, where env = demo_env, unfolded text_message_def option.case]
  show ?thesis by blast
qed

text \<open>
  C5. A stream that ends with a last object the schema rejects: \<^verbatim>\<open>onFinish\<close> is
  called with no object and the validation error, \<^verbatim>\<open>loading\<close> is cleared, and the
  \<^verbatim>\<open>error\<close> field and the object are left as they were. (\<^verbatim>\<open>onFinish\<close> returns.)
\<close>

theorem schema_failure_reports_via_onFinish:
  assumes "tasks s t = Some (Piping acc l)" and "t \<notin> aborted s"
    and "opt_onFinish opts = Some cb" and "opt_schema opts l = Inl e" and "cb None (Some e) = Returns"
  shows "\<exists>s'. client_step opts env (Stream_Closed t) s = Some s' \<and>
    outputs s' = outputs s @ [OnFinish_Call None (Some e)] \<and> error s' = error s \<and>
    \<not> loading s' \<and> objects s' = objects s \<and> tasks s' t = None"
  using assms by (simp add: stream_close_def finish_task_def Let_def)

theorem schema_failure_reports_via_onFinish_witness:
  "\<exists>s'. client_step demo_opts demo_env (Stream_Closed 0)
          \<lparr>objects = [''obj'' \<mapsto> Some (JNum 7)], error = None, loading = True, abortController = Some 0,
           tasks = [0 \<mapsto> Piping ''7'' (Some (JNum 7))], aborted = {}, next_ctrl = 1, outputs = []\<rparr> = Some s' \<and>
        outputs s' = [OnFinish_Call None (Some (Error ''AI_TypeValidationError'' ''Type validation failed''))] \<and>
        error s' = None"
proof -
  let ?s = "\<lparr>objects = [''obj'' \<mapsto> Some (JNum 7)], error = None, loading = True, abortController = Some 0,
           tasks = [0 \<mapsto> Piping ''7'' (Some (JNum 7))], aborted = {}, next_ctrl = 1, outputs = []\<rparr>
           :: (jsval, string) client_state"
  have "tasks ?s 0 = Some (Piping ''7'' (Some (JNum 7)))" "0 \<notin> aborted ?s"
    "opt_onFinish demo_opts = Some (\<lambda>_ _. Returns)"
    "opt_schema demo_opts (Some (JNum 7)) = Inl (Error ''AI_TypeValidationError'' ''Type validation failed'')"
    "(\<lambda>_ _. Returns) None (Some (Error ''AI_TypeValidationError'' ''Type validation failed'')) = Returns"
    by (simp_all add: demo_opts_def)
  from schema_failure_reports_via_onFinish [OF this, where env = demo_env] obtain s' where
    "client_step demo_opts demo_env (Stream_Closed 0) ?s = Some s'"
    "outputs s' = outputs ?s @ [OnFinish_Call None (Some (Error ''AI_TypeValidationError'' ''Type validation failed''))]"
    "error s' = error ?s"
    by blast
  then show ?thesis by (intro exI [of _ s']) simp
qed

text \<open>
  C6. An ok response without a body ends the request with the error
  "The response body is empty." and clears \<^verbatim>\<open>loading\<close>. (\<^verbatim>\<open>onError\<close>, if given, returns.)
\<close>

theorem empty_body_sets_error:
  assumes "tasks s t = Some Await_Fetch" and "t \<notin> aborted s" and "resp_ok r" and "\<not> resp_has_body r"
    and "\<forall>cb. opt_onError opts = Some cb \<longrightarrow> cb (new_Error ''The response body is empty.'') = Returns"
  shows "\<exists>s'. client_step opts env (Fetch_Resolved t r) s = Some s' \<and>
    error s' = Some (new_Error ''The response body is empty.'') \<and> \<not> loading s' \<and> tasks s' t = None"
  using assms catch_completes_new_Error [OF assms(5)] by (simp add: client_simps)

theorem empty_body_sets_error_witness:
  "\<exists>s'. client_step demo_opts demo_env (Fetch_Resolved 0 \<lparr>resp_ok = True, resp_has_body = False\<rparr>)
          (submit demo_opts demo_env ''q'' (client_init demo_opts demo_env)) = Some s' \<and>
        error s' = Some (new_Error ''The response body is empty.'') \<and> \<not> loading s'"
proof -
  let ?s = "submit demo_opts demo_env ''q'' (client_init demo_opts demo_env)"
  have "tasks ?s 0 = Some Await_Fetch" "0 \<notin> aborted ?s"
    "resp_ok \<lparr>resp_ok = True, resp_has_body = False\<rparr>" "\<not> resp_has_body \<lparr>resp_ok = True, resp_has_body = False\<rparr>"
    "\<forall>cb. opt_onError demo_opts = Some cb \<longrightarrow> cb (new_Error ''The response body is empty.'') = Returns"
    by (simp_all add: client_simps demo_env_def demo_opts_def client_init_def)
  from empty_body_sets_error [OF this, where env = demo_env] show ?thesis by blast
qed

subsection \<open>Invariants of reachable states\<close>

text \<open>
  C7. A request that completes reports the final object: after \<^verbatim>\<open>submit\<close>, an ok
  response with a body, a non-empty sequence of chunks and the end of the stream,
  the object is the parse of the whole text, \<^verbatim>\<open>loading\<close> and the controller are
  cleared, no error is set, and the only calls made are the fetch and one call of
  \<^verbatim>\<open>onFinish\<close> with the schema's verdict on that parse: the validated value and no
  error, or no object and the validation error (deep equality being equality of
  data; \<^verbatim>\<open>onFinish\<close> returns).
\<close>

theorem completed_request_reports_final_object:
  assumes "reachable opts env s" and "isDeepEqualData env = (\<lambda>a b. a = b)"
    and "jsonStringify env i = Inr body" and "resp_ok r" and "resp_has_body r" and "cs \<noteq> []"
    and "opt_onFinish opts = Some cb" and "\<forall>v e. cb v e = Returns"
  shows "\<exists>s'. client_run opts env
      (Submit i # Fetch_Resolved (next_ctrl s) r # map (Chunk (next_ctrl s)) cs @ [Stream_Closed (next_ctrl s)]) s = Some s' \<and>
    get_object opts env s' = parsePartialJson env (concat cs) \<and> \<not> loading s' \<and> error s' = None \<and>
    abortController s' = None \<and> tasks s' (next_ctrl s) = None \<and>
    outputs s' = outputs s @
      [Fetch_Call (actual_fetch opts) (client_api opts) (request_headers opts) body (next_ctrl s),
       (case opt_schema opts (parsePartialJson env (concat cs)) of
          Inr v \<Rightarrow> OnFinish_Call (Some v) None
        | Inl e \<Rightarrow> OnFinish_Call None (Some e))]"
proof -
  let ?t = "next_ctrl s"
  let ?p = "parsePartialJson env (concat cs)"
  from assms(1) have inv: "client_inv opts env s" by (rule reachable_client_inv)
  from streaming_run [OF inv assms(2-6)] obtain s1 where
    run: "client_run opts env (Submit i # Fetch_Resolved ?t r # map (Chunk ?t) cs) s = Some s1"
    and st: "tasks s1 ?t = Some (Piping (concat cs) ?p)" "objects s1 (client_id opts env) = Some ?p"
    and fl: "?t \<notin> aborted s1" "error s1 = None"
      "outputs s1 = outputs s @ [Fetch_Call (actual_fetch opts) (client_api opts) (request_headers opts) body ?t]"
    by blast
  define s2 where "s2 = fst (stream_close opts ?p (finish_task ?t s1))"
  have close: "client_step opts env (Stream_Closed ?t) s1 = Some s2"
    using st(1) fl(1) assms(7,8) by (simp add: s2_def stream_close_def Let_def split: sum.split)
  from run close have "client_run opts env
      (Submit i # Fetch_Resolved ?t r # map (Chunk ?t) cs @ [Stream_Closed ?t]) s = Some s2"
    using run_append [of opts env "Submit i # Fetch_Resolved ?t r # map (Chunk ?t) cs" "[Stream_Closed ?t]" s]
    by simp
  moreover have "get_object opts env s2 = ?p" "\<not> loading s2" "error s2 = None" "abortController s2 = None"
    "tasks s2 ?t = None"
    using st(2) fl(2) assms(7) by (simp_all add: s2_def get_object_def client_simps stream_close_def Let_def split: sum.split)
  moreover have "outputs s2 = outputs s @
      [Fetch_Call (actual_fetch opts) (client_api opts) (request_headers opts) body ?t,
       (case opt_schema opts ?p of Inr v \<Rightarrow> OnFinish_Call (Some v) None | Inl e \<Rightarrow> OnFinish_Call None (Some e))]"
    using fl(3) assms(7) by (simp add: s2_def client_simps stream_close_def Let_def split: sum.split)
  ultimately show ?thesis by blast
qed

theorem completed_request_reports_final_object_witness:
  "\<exists>s'. client_run demo_opts demo_env
          [Submit ''q'', Fetch_Resolved 0 \<lparr>resp_ok = True, resp_has_body = True\<rparr>, Chunk 0 ''{a'', Chunk 0 ''b}'',
           Stream_Closed 0]
          (client_init demo_opts demo_env) = Some s' \<and>
        get_object demo_opts demo_env s' = Some (JStr ''{ab}'') \<and> \<not> loading s' \<and> error s' = None \<and>
        outputs s' = [Fetch_Call ''fetch'' ''/api/completion'' [(''Content-Type'', ''application/json'')] ''q'' 0,
                      OnFinish_Call (Some ''{ab}'') None]"
proof -
  have r: "reachable demo_opts demo_env (client_init demo_opts demo_env)" by (rule reachable.init)
  have h: "isDeepEqualData demo_env = (\<lambda>a b. a = b)" "jsonStringify demo_env ''q'' = Inr ''q''"
    "resp_ok \<lparr>resp_ok = True, resp_has_body = True\<rparr>" "resp_has_body \<lparr>resp_ok = True, resp_has_body = True\<rparr>"
    "[''{a'', ''b}''] \<noteq> []" "opt_onFinish demo_opts = Some (\<lambda>_ _. Returns)" "\<forall>v e. (\<lambda>_ _. Returns) v e = Returns"
    by (simp_all add: demo_env_def demo_opts_def)
  have n: "next_ctrl (client_init demo_opts demo_env) = 0" "outputs (client_init demo_opts demo_env) = []"
    by (simp_all add: client_init_def)
  have p: "parsePartialJson demo_env (concat [''{a'', ''b}'']) = Some (JStr ''{ab}'')"
    by (simp add: demo_env_def)
  have v: "opt_schema demo_opts (Some (JStr ''{ab}'')) = Inr ''{ab}''"
    by (simp add: demo_opts_def)
  have f: "actual_fetch demo_opts = ''fetch''" "client_api demo_opts = ''/api/completion''"
    "request_headers demo_opts = [(''Content-Type'', ''application/json'')]"
    by (simp_all add: demo_opts_def actual_fetch_def client_api_def request_headers_def js_spread_def)
  from completed_request_reports_final_object [OF r h, unfolded n p v f] obtain s' where
    "client_run demo_opts demo_env
       (Submit ''q'' # Fetch_Resolved 0 \<lparr>resp_ok = True, resp_has_body = True\<rparr> #
        map (Chunk 0) [''{a'', ''b}''] @ [Stream_Closed 0]) (client_init demo_opts demo_env) = Some s'"
    "get_object demo_opts demo_env s' = Some (JStr ''{ab}'')" "\<not> loading s'" "error s' = None"
    "outputs s' = [] @ [Fetch_Call ''fetch'' ''/api/completion'' [(''Content-Type'', ''application/json'')] ''q'' 0,
       (case Inr ''{ab}'' :: js_error + string of Inr v \<Rightarrow> OnFinish_Call (Some v) None | Inl e \<Rightarrow> OnFinish_Call None (Some e))]"
    by blast
  then show ?thesis by (intro exI [of _ s']) simp
qed

text \<open>
  C8. In every reachable state, while \<^verbatim>\<open>loading\<close> is shown there is a current
  controller, created by the latest \<^verbatim>\<open>submit\<close> and not yet aborted, so \<^verbatim>\<open>stop()\<close>
  has a live request to abort; and the object slot of the client's id is always
  present.
\<close>

theorem loading_has_live_controller:
  assumes "reachable opts env s"
  shows "(loading s \<longrightarrow> (\<exists>c. abortController s = Some c \<and> c \<notin> aborted s \<and> Suc c = next_ctrl s)) \<and>
    objects s (client_id opts env) \<noteq> None"
  using reachable_client_inv [OF assms] by (auto simp: client_inv_def)

theorem loading_has_live_controller_witness:
  "let s = submit demo_opts demo_env ''q'' (client_init demo_opts demo_env) in
   reachable demo_opts demo_env s \<and> loading s \<and>
   (\<exists>c. abortController s = Some c \<and> c \<notin> aborted s \<and> Suc c = next_ctrl s) \<and>
   objects s (client_id demo_opts demo_env) \<noteq> None"
proof -
  define s where "s = submit demo_opts demo_env ''q'' (client_init demo_opts demo_env)"
  have "client_step demo_opts demo_env (Submit ''q'') (client_init demo_opts demo_env) = Some s"
    by (simp add: s_def)
  with reachable.init have r: "reachable demo_opts demo_env s"
    by (rule reachable.step)
  have l: "loading s"
    by (simp add: s_def submit_def demo_env_def Let_def)
  from loading_has_live_controller [OF r] l r show ?thesis
    unfolding Let_def s_def [symmetric] by blast
qed

subsection \<open>Overlapping requests and swallowed errors\<close>

text \<open>
  C9. A new \<^verbatim>\<open>submit\<close> neither aborts nor forgets an earlier request that is still
  running; when that earlier stream ends, its \<^verbatim>\<open>close\<close> clears \<^verbatim>\<open>loading\<close> and the
  controller of the newer request, which keeps running unaborted, so a later
  \<^verbatim>\<open>stop()\<close> cannot cancel it.
\<close>

theorem stale_close_disarms_stop:
  assumes "tasks s t = Some (Piping acc l)" and "t \<notin> aborted s"
    and "abortController s = Some c" and "c \<notin> aborted s" and "tasks s c \<noteq> None" and "c \<noteq> t"
    and "opt_onFinish opts = None"
  shows "\<exists>s'. client_step opts env (Stream_Closed t) s = Some s' \<and>
    abortController s' = None \<and> \<not> loading s' \<and> tasks s' c = tasks s c \<and> c \<notin> aborted (stop s')"
  using assms by (simp add: stream_close_def finish_task_def stop_def Let_def)

theorem stale_close_disarms_stop_witness:
  "let s = the (client_run demo_opts demo_env
                 [Submit ''a'', Fetch_Resolved 0 \<lparr>resp_ok = True, resp_has_body = True\<rparr>,
                  Submit ''b'', Fetch_Resolved 1 \<lparr>resp_ok = True, resp_has_body = True\<rparr>]
                 (client_init demo_opts demo_env));
       opts = demo_opts\<lparr>opt_onFinish := None\<rparr>
   in \<exists>s'. client_step opts demo_env (Stream_Closed 0) s = Some s' \<and>
        abortController s' = None \<and> tasks s' 1 = Some (Piping '''' None) \<and> 1 \<notin> aborted (stop s')"
proof -
  define s where "s = the (client_run demo_opts demo_env
                 [Submit ''a'', Fetch_Resolved 0 \<lparr>resp_ok = True, resp_has_body = True\<rparr>,
                  Submit ''b'', Fetch_Resolved 1 \<lparr>resp_ok = True, resp_has_body = True\<rparr>]
                 (client_init demo_opts demo_env))"
  have s: "tasks s = [0 \<mapsto> Piping '''' None, 1 \<mapsto> Piping '''' None]" "aborted s = {}"
    "abortController s = Some 1"
    by (simp_all add: s_def demo_opts_def demo_env_def client_init_def submit_def on_response_def Let_def
        fun_upd_twist)
  have "tasks s 0 = Some (Piping '''' None)" "(0::nat) \<notin> aborted s" "abortController s = Some 1"
    "(1::nat) \<notin> aborted s" "tasks s 1 \<noteq> None" "(1::nat) \<noteq> 0" "opt_onFinish (demo_opts\<lparr>opt_onFinish := None\<rparr>) = None"
    using s by simp_all
  from stale_close_disarms_stop [OF this, where env = demo_env] obtain s' where
    "client_step (demo_opts\<lparr>opt_onFinish := None\<rparr>) demo_env (Stream_Closed 0) s = Some s'"
    "abortController s' = None" "tasks s' 1 = tasks s 1" "1 \<notin> aborted (stop s')"
    by blast
  with s show ?thesis unfolding Let_def s_def [symmetric] by (intro exI [of _ s']) simp
qed

text \<open>
  C10. An abort error that \<^verbatim>\<open>stop()\<close> did not cause (a timeout, or an
  \<^verbatim>\<open>AbortError\<close> thrown by a custom fetch) ends the request silently: \<^verbatim>\<open>loading\<close>,
  \<^verbatim>\<open>error\<close> and the outputs are left as they were, so a request that was loading
  stays loading with nothing left to finish it.
\<close>

theorem abort_error_keeps_loading:
  assumes "tasks s t \<noteq> None" and "isAbortError e"
  shows "\<exists>s'. client_step opts env (Task_Rejected t e) s = Some s' \<and>
    loading s' = loading s \<and> error s' = error s \<and> outputs s' = outputs s \<and> tasks s' t = None"
  using assms by (simp add: client_simps)

theorem abort_error_keeps_loading_witness:
  "\<exists>s'. client_step demo_opts demo_env (Task_Rejected 0 (Thrown_Error (Error ''TimeoutError'' ''timeout'')))
          (submit demo_opts demo_env ''q'' (client_init demo_opts demo_env)) = Some s' \<and>
        loading s' \<and> tasks s' = Map.empty"
proof -
  let ?s = "submit demo_opts demo_env ''q'' (client_init demo_opts demo_env)"
  have "tasks ?s 0 \<noteq> None" "isAbortError (Thrown_Error (Error ''TimeoutError'' ''timeout''))"
    by (simp_all add: client_simps demo_env_def client_init_def)
  from abort_error_keeps_loading [OF this, where opts = demo_opts and env = demo_env]
  obtain s' where "client_step demo_opts demo_env (Task_Rejected 0 (Thrown_Error (Error ''TimeoutError'' ''timeout''))) ?s = Some s'"
    "loading s' = loading ?s" "tasks s' 0 = None"
    by blast
  moreover have "tasks ?s = [0 \<mapsto> Await_Fetch]" "loading ?s"
    by (simp_all add: client_simps demo_env_def client_init_def)
  moreover from calculation(1,4) have "tasks s' = Map.empty"
    by (auto simp: client_simps fun_eq_iff split: if_splits)
  ultimately show ?thesis by (intro exI [of _ s']) simp
qed

text \<open>
  C11. When \<^verbatim>\<open>onError\<close> throws, the \<^verbatim>\<open>catch\<close> block stops there: the callback was
  called, but \<^verbatim>\<open>loading\<close> and \<^verbatim>\<open>error\<close> are not updated.
\<close>

theorem onError_throw_skips_reset:
  assumes "tasks s t \<noteq> None" and "t \<notin> aborted s" and "\<not> isAbortError e"
    and "opt_onError opts = Some cb" and "cb (coalesce_error e) = Throws x"
  shows "\<exists>s'. client_step opts env (Task_Rejected t e) s = Some s' \<and>
    loading s' = loading s \<and> error s' = error s \<and> outputs s' = outputs s @ [OnError_Call (coalesce_error e)]"
  using assms by (simp add: client_simps catch_completes_def)

theorem onError_throw_skips_reset_witness:
  "\<exists>s'. client_step (demo_opts\<lparr>opt_onError := Some (\<lambda>_. Throws (Thrown_Value ''boom''))\<rparr>) demo_env
          (Task_Rejected 0 (Thrown_Value ''network down''))
          (submit demo_opts demo_env ''q'' (client_init demo_opts demo_env)) = Some s' \<and>
        loading s' \<and> error s' = None"
proof -
  let ?s = "submit demo_opts demo_env ''q'' (client_init demo_opts demo_env)"
  let ?o = "demo_opts\<lparr>opt_onError := Some (\<lambda>_. Throws (Thrown_Value ''boom''))\<rparr>"
  have "tasks ?s 0 \<noteq> None" "0 \<notin> aborted ?s" "\<not> isAbortError (Thrown_Value ''network down'')"
    "opt_onError ?o = Some (\<lambda>_. Throws (Thrown_Value ''boom''))"
    "(\<lambda>_. Throws (Thrown_Value ''boom'')) (coalesce_error (Thrown_Value ''network down'')) = Throws (Thrown_Value ''boom'')"
    by (simp_all add: client_simps demo_env_def client_init_def)
  from onError_throw_skips_reset [OF this, where env = demo_env] obtain s' where
    "client_step ?o demo_env (Task_Rejected 0 (Thrown_Value ''network down'')) ?s = Some s'"
    "loading s' = loading ?s" "error s' = error ?s"
    by blast
  moreover have "loading ?s" "error ?s = None" by (simp_all add: client_simps demo_env_def)
  ultimately show ?thesis by (intro exI [of _ s']) simp
qed

subsection \<open>Request headers\<close>

text \<open>
  C12. Headers given as a record are sent after the default content type, a given
  \<^verbatim>\<open>Content-Type\<close> replacing it.
\<close>

theorem record_headers_sent:
  "opt_headers opts = Some (Headers_Record h) \<Longrightarrow> distinct_keys h \<Longrightarrow>
   map_of (request_headers opts) = [''Content-Type'' \<mapsto> ''application/json''] ++ map_of h"
  by (simp add: request_headers_def map_of_js_spread)

theorem record_headers_sent_witness:
  "map_of (request_headers (demo_opts\<lparr>opt_headers := Some (Headers_Record [(''Authorization'', ''k'')])\<rparr>))
     ''Authorization'' = Some ''k''"
proof -
  have "opt_headers (demo_opts\<lparr>opt_headers := Some (Headers_Record [(''Authorization'', ''k'')])\<rparr>) =
          Some (Headers_Record [(''Authorization'', ''k'')])" "distinct_keys [(''Authorization'', ''k'')]"
    by simp_all
  from record_headers_sent [OF this] show ?thesis by simp
qed

text \<open>
  C13. An \<^verbatim>\<open>onFinish\<close> that throws makes the pipe reject: the thrown value goes
  through the \<^verbatim>\<open>catch\<close> block, so it becomes the \<^verbatim>\<open>error\<close> of the client and clears
  \<^verbatim>\<open>loading\<close>, after \<^verbatim>\<open>onFinish\<close> has been called with the validated object. (The
  thrown value is not an abort error and \<^verbatim>\<open>onError\<close>, if given, returns.)
\<close>

theorem onFinish_throw_sets_error:
  assumes "tasks s t = Some (Piping acc l)" and "t \<notin> aborted s"
    and "opt_onFinish opts = Some cb" and "opt_schema opts l = Inr v" and "cb (Some v) None = Throws x"
    and "catch_completes opts x"
  shows "\<exists>s'. client_step opts env (Stream_Closed t) s = Some s' \<and>
    error s' = Some (coalesce_error x) \<and> \<not> loading s' \<and> tasks s' t = None \<and> objects s' = objects s \<and>
    take (Suc (length (outputs s))) (outputs s') = outputs s @ [OnFinish_Call (Some v) None]"
  using assms by (simp add: stream_close_def finish_task_def Let_def client_simps)

theorem onFinish_throw_sets_error_witness:
  "let o' = demo_opts\<lparr>opt_onFinish := Some (\<lambda>_ _. Throws (Thrown_Value ''boom''))\<rparr>;
       s = the (client_run o' demo_env
                 [Submit ''q'', Fetch_Resolved 0 \<lparr>resp_ok = True, resp_has_body = True\<rparr>, Chunk 0 ''x'']
                 (client_init o' demo_env))
   in \<exists>s'. client_step o' demo_env (Stream_Closed 0) s = Some s' \<and>
        error s' = Some (new_Error ''boom'') \<and> \<not> loading s' \<and>
        take 2 (outputs s') = [Fetch_Call ''fetch'' ''/api/completion'' [(''Content-Type'', ''application/json'')] ''q'' 0,
                               OnFinish_Call (Some ''x'') None]"
proof -
  define o' where "o' = demo_opts\<lparr>opt_onFinish := Some (\<lambda>_ _. Throws (Thrown_Value ''boom''))\<rparr>"
  define s where "s = the (client_run o' demo_env
                 [Submit ''q'', Fetch_Resolved 0 \<lparr>resp_ok = True, resp_has_body = True\<rparr>, Chunk 0 ''x'']
                 (client_init o' demo_env))"
  have s: "tasks s 0 = Some (Piping ''x'' (Some (JStr ''x'')))" "0 \<notin> aborted s"
    "outputs s = [Fetch_Call ''fetch'' ''/api/completion'' [(''Content-Type'', ''application/json'')] ''q'' 0]"
    by (simp_all add: s_def o'_def demo_opts_def demo_env_def client_init_def submit_def on_response_def
        stream_write_def client_id_def actual_fetch_def client_api_def request_headers_def js_spread_def Let_def)
  have h: "opt_onFinish o' = Some (\<lambda>_ _. Throws (Thrown_Value ''boom''))"
    "opt_schema o' (Some (JStr ''x'')) = Inr ''x''"
    "(\<lambda>_ _. Throws (Thrown_Value ''boom'')) (Some ''x'') None = Throws (Thrown_Value ''boom'')"
    "catch_completes o' (Thrown_Value ''boom'')"
    by (simp_all add: o'_def demo_opts_def catch_completes_def)
  from onFinish_throw_sets_error [OF s(1,2) h, where env = demo_env] obtain s' where
    "client_step o' demo_env (Stream_Closed 0) s = Some s'" "error s' = Some (coalesce_error (Thrown_Value ''boom''))"
    "\<not> loading s'" "take (Suc (length (outputs s))) (outputs s') = outputs s @ [OnFinish_Call (Some ''x'') None]"
    by blast
  with s(3) show ?thesis unfolding Let_def o'_def [symmetric] s_def [symmetric]
    by (intro exI [of _ s']) (simp add: numeral_2_eq_2)
qed

end
