(* ===== verification/Spec2Isabelle.thy ===== *)
theory Spec2Isabelle
  imports DefaultSettingsMiddleware ObjectClient
begin

text \<open>
  \<^bold>\<open>A verification development for the Svelte object client and the default-settings
  middleware of the AI SDK.\<close>

  The source \<^verbatim>\<open>src/packages/svelte/src/lib/object.svelte.ts\<close> holds two parts:

  \<^item> \<^verbatim>\<open>ObjectClient\<close> (lines 1--208), the Svelte client behind \<^verbatim>\<open>useObject\<close>. It
    posts an input to an endpoint, reads the streamed JSON text chunk by chunk,
    shows the partial-JSON parse of the text so far as \<^verbatim>\<open>object\<close>, validates the
    final object against a schema for \<^verbatim>\<open>onFinish\<close>, and keeps \<^verbatim>\<open>loading\<close> and
    \<^verbatim>\<open>error\<close>. \<^verbatim>\<open>stop()\<close> aborts the current request.
  \<^item> \<^verbatim>\<open>defaultSettingsMiddleware\<close> (lines 209--241), a language-model middleware whose
    \<^verbatim>\<open>transformParams\<close> spreads the call's parameters over default settings and
    deep-merges the two \<^verbatim>\<open>providerMetadata\<close> objects with \<^verbatim>\<open>mergeObjects\<close>.

  The two parts share only the JavaScript value model.

  \<^bold>\<open>Theories.\<close>

  \<^descr>[\<open>Prelude\<close>] Association lists as objects (\<open>'v js_props\<close>), the collections
    \<open>js_simps\<close> and \<open>client_simps\<close>, and the list and map lemmas the components share.
  \<^descr>[\<open>JsValue\<close>] JSON-like values \<open>jsval\<close> with \<open>undefined\<close> as a value of its own,
    \<open>js_get\<close>, object spread \<open>js_spread\<close> (\<open>{...a, ...b}\<close>), well-formedness \<open>wf_jsval\<close>,
    and thrown values with \<open>isAbortError\<close> and the coalescing of lines 198--199.
  \<^descr>[\<open>MergeObjects\<close>] \<^verbatim>\<open>mergeObjects\<close> of \<^verbatim>\<open>util/merge-objects\<close>, which is not in the
    source tree and is modelled from its documented behaviour. It is the mutually
    recursive \<open>merge_entries\<close>/\<open>merge_value\<close>, terminating by the size of the
    override. Its lemmas give the lookup, the key set, well-formedness and
    idempotence of the merge.
  \<^descr>[\<open>DefaultSettingsMiddleware\<close>] \<open>transformParams\<close> (lines 230--239) and
    \<open>defaultSettingsMiddleware\<close> (lines 219--241), with the lookup, key-set,
    and metadata properties of the transformed parameters.
  \<^descr>[\<open>ObjectClient\<close>] The client as a state machine, described below.

  \<^bold>\<open>The client model.\<close>

  \<open>client_options\<close> is the options type (lines 17--71). The collaborators the
  client only calls are a parameter \<open>collaborators\<close>: \<^verbatim>\<open>parsePartialJson\<close>,
  \<^verbatim>\<open>isDeepEqualData\<close>, \<^verbatim>\<open>JSON.stringify\<close> (which may throw) and \<^verbatim>\<open>generateId\<close>.
  Schema validation is the option field \<open>opt_schema\<close>, returning the value or the
  validation error. The callbacks return a \<open>cb_outcome\<close> (they may throw).

  \<open>client_state\<close> holds the fields of lines 77--80: the \<^verbatim>\<open>SvelteMap\<close> of objects,
  \<^verbatim>\<open>error\<close>, \<^verbatim>\<open>loading\<close> and \<^verbatim>\<open>abortController\<close>. Controllers are numbered by
  \<open>next_ctrl\<close>, and \<open>aborted\<close> is the set of aborted signals. The state also
  holds the asynchronous continuations still pending, one \<open>task_pc\<close> per call of
  \<^verbatim>\<open>submit\<close>, keyed by its controller number:
  \<^item> waiting for the fetch;
  \<^item> waiting for the text of a non-ok response;
  \<^item> piping, with the local \<^verbatim>\<open>accumulatedText\<close> and \<^verbatim>\<open>latestObject\<close>.

  \<open>outputs\<close> is the trace of calls to the outside world: fetch, abort,
  \<^verbatim>\<open>onFinish\<close> and \<^verbatim>\<open>onError\<close>.

  Each synchronous segment of the source is one definition:
  \<^item> \<open>client_init\<close>: the constructor;
  \<^item> \<open>stop\<close>;
  \<^item> \<open>submit\<close>: up to its first \<^verbatim>\<open>await\<close>;
  \<^item> \<open>on_response\<close> and \<open>on_text\<close>: the response checks;
  \<^item> \<open>stream_write\<close> and \<open>stream_close\<close>: the sink;
  \<^item> \<open>submit_catch\<close>: the \<^verbatim>\<open>catch\<close> block.

  \<open>client_step\<close> is the interleaving: the user's \<^verbatim>\<open>submit\<close> and \<^verbatim>\<open>stop\<close> calls, and
  the environment's deliveries (response, text, chunk, end of stream, rejection)
  to any pending task, in any order. \<open>client_run\<close> folds it over a list of events.
  \<open>reachable\<close> is the inductive set of states reachable from \<open>client_init\<close>.

  An aborted task gets no further deliveries, only a rejection with an abort
  error. This is the contract of fetch and of \<^verbatim>\<open>pipeTo\<close> with an aborted signal.
  An exception of \<^verbatim>\<open>onFinish\<close> inside \<^verbatim>\<open>close\<close> rejects the pipe. The model
  runs \<^verbatim>\<open>close\<close> and the \<^verbatim>\<open>catch\<close> block as one step, since no other event of
  this client can run between them.

  \<^bold>\<open>What is proved.\<close>

  \<^item> \<open>client_inv\<close> holds in every reachable state:
    \<^item> the object map has exactly the client's id;
    \<^item> a current controller is the latest one and is not aborted;
    \<^item> \<open>loading\<close> implies a controller;
    \<^item> task and signal numbers are below \<open>next_ctrl\<close>.

    It is proved by rule induction with one lemma per operation.
  \<^item> Refinement of the streaming loop. With data equality as deep equality,
    after \<^verbatim>\<open>submit\<close>, an ok response and chunks \<open>cs\<close>, the object is
    \<^verbatim>\<open>parsePartialJson (concat cs)\<close>. The lemma \<open>streaming_run\<close> carries
    this, and the end of the stream then yields exactly one \<^verbatim>\<open>onFinish\<close> call
    with the schema's verdict on that final parse.
  \<^item> Functional and error properties of every branch:
    \<^item> the reset done by \<^verbatim>\<open>submit\<close>;
    \<^item> cancellation by \<^verbatim>\<open>stop\<close>, which keeps the partial object;
    \<^item> non-ok and empty responses;
    \<^item> schema failures reported only through \<^verbatim>\<open>onFinish\<close>;
    \<^item> the request headers.
  \<^item> The defects the model exposes, each proved as a theorem:
    \<^item> a second \<^verbatim>\<open>submit\<close> does not abort the first. The first stream's
      \<^verbatim>\<open>close\<close> then clears the newer request's controller and \<^verbatim>\<open>loading\<close>, so
      \<^verbatim>\<open>stop()\<close> can no longer cancel it;
    \<^item> a timeout or other abort error not caused by \<^verbatim>\<open>stop()\<close> leaves \<^verbatim>\<open>loading\<close> set;
    \<^item> an \<^verbatim>\<open>onError\<close> that throws skips the reset of \<^verbatim>\<open>loading\<close> and \<^verbatim>\<open>error\<close>;
    \<^item> an \<^verbatim>\<open>onFinish\<close> that throws becomes the client's \<^verbatim>\<open>error\<close>.
  \<^item> For the middleware:
    \<^item> each property of the result is the call's, else the default's
      (so an option present with value \<open>undefined\<close> overrides its default);
    \<^item> per provider, \<^verbatim>\<open>providerMetadata\<close> is the call's entry merged into the
      default's, the default kept where the call has none or \<open>undefined\<close>;
    \<^item> the key set is the union of both with \<^verbatim>\<open>providerMetadata\<close> added.

  Two divergences have no theorem, because the model would only restate them.
  Headers passed as a \<^verbatim>\<open>Headers\<close> instance are dropped by the spread, and the
  model's \<open>own_headers\<close> writes this out. \<^verbatim>\<open>onFinish\<close> may receive neither an
  object nor an error, when the schema accepts \<open>undefined\<close>.

  Witnesses evaluate the operations on \<open>demo_opts\<close>/\<open>demo_env\<close>. This instance has
  JSON values as objects, a stand-in parser that reads non-empty text as a
  string value, equality as deep equality, and a schema that accepts strings.

  \<^bold>\<open>Bounds.\<close> No fuel is used. Every operation is a non-recursive function of
  the state. Runs are finite lists of events, and \<open>merge_entries\<close> terminates by a
  size measure.

  \<^bold>\<open>Not modelled.\<close> These are parameters, not definitions:
  \<^item> \<^verbatim>\<open>parsePartialJson\<close>, \<^verbatim>\<open>isDeepEqualData\<close>, schema validation and
    \<^verbatim>\<open>generateId\<close> are library code outside the source;
  \<^item> the platform's fetch, text decoding and streams are represented only by the
    events they deliver;
  \<^item> the byte level of the stream (chunks are taken as decoded text).

  Svelte reactivity (\<^verbatim>\<open>$state\<close>, \<^verbatim>\<open>$derived\<close>) is plain field access, with
  \<^verbatim>\<open>#id\<close> and \<^verbatim>\<open>#api\<close> computed from the options.
\<close>

end
